theory Spec2Isabelle
  imports Main "HOL-Library.Word"
begin

unbundle bit_operations_syntax

section \<open>The archive prelude of common/archive/prelude.go\<close>

text \<open>
  A shallow embedding of \<^verbatim>\<open>common/archive/prelude.go\<close>: the prelude of a mongodump
  archive (magic number, header, one metadata record per namespace, terminator), the
  virtual directory tree that \<^verbatim>\<open>PreludeExplorer\<close> synthesises from it, and the
  read-side metadata file.

  Go strings are byte sequences and are modelled as \<^typ>\<open>string\<close>. A
  \<^verbatim>\<open>*CollectionMetadata\<close> is modelled by the record it points to: no function of
  the file writes through such a pointer, so the two views of a prelude share values
  where the Go code shares objects. A nil map and a nil pointer are \<^term>\<open>None\<close>.
\<close>

subsection \<open>Data model\<close>

type_synonym byte = "8 word"

text \<open>
  The errors the file produces itself (\<^verbatim>\<open>fmt.Errorf\<close> with a fixed text), the two
  errors of \<^verbatim>\<open>io.ReadAtLeast\<close>, and the errors of collaborators (the BSON codec, the
  sink, the block parser), which are passed through unchanged.
\<close>

datatype error =
    ErrEOF
  | ErrUnexpectedEOF
  | ErrNotAnArchive
  | ErrNotADirectory
  | ErrNoSuchDirectory
  | ErrNoSuchFile
  | ErrNotArchiveMetadata
  | ErrParser string
  | ErrOther string

text \<open>
  Modelled from the spec: the declaration of \<^verbatim>\<open>Header\<close> is not among the
  sources. The fields are the two that \<^verbatim>\<open>NewPrelude\<close> sets, with the types of
  section 6 of the specification (\<^verbatim>\<open>ConcurrentCollections: int32\<close>).
\<close>

record Header =
  ArchiveFormatVersion :: string
  ConcurrentCollections :: "32 word"

text \<open>
  Modelled from the spec: the declaration of \<^verbatim>\<open>CollectionMetadata\<close> is not among
  the sources. The fields are the four that prelude.go reads and writes, with the types
  of section 3 and section 6 of the specification (\<^verbatim>\<open>Size: int64\<close>).
\<close>

record CollectionMetadata =
  Database :: string
  Collection :: string
  Metadata :: string
  Size :: "64 word"

record Prelude =
  Header :: "Header option"
  DBS :: "string list"
  NamespaceMetadatas :: "CollectionMetadata list"
  NamespaceMetadatasByDB :: "(string \<rightharpoonup> CollectionMetadata list) option"

text \<open>The zero value \<^verbatim>\<open>Prelude{}\<close>: nil header, nil slices, nil map.\<close>

definition emptyPrelude :: Prelude where
  "emptyPrelude =
     \<lparr>Header = None, DBS = [], NamespaceMetadatas = [], NamespaceMetadatasByDB = None\<rparr>"

text \<open>
  The comma-ok lookup \<^verbatim>\<open>v, ok := prelude.NamespaceMetadatasByDB[db]\<close>: a nil map has
  no keys.
\<close>

definition lookupByDB :: "Prelude \<Rightarrow> string \<Rightarrow> CollectionMetadata list option" where
  "lookupByDB p db = (case NamespaceMetadatasByDB p of None \<Rightarrow> None | Some m \<Rightarrow> m db)"

subsection \<open>AddMetadata\<close>

text \<open>
  Lines 110-121. The record is appended to the flat sequence; a nil map is made; the
  database is appended to \<^verbatim>\<open>DBS\<close> when the map has no such key; the record is
  appended to the group of its database (\<^verbatim>\<open>append\<close> to the nil slice of a missing
  key gives the one-element slice). Logging is not modelled.
\<close>

definition Prelude_AddMetadata :: "Prelude \<Rightarrow> CollectionMetadata \<Rightarrow> Prelude" where
  "Prelude_AddMetadata p cm =
     (let m = (case NamespaceMetadatasByDB p of None \<Rightarrow> Map.empty | Some m0 \<Rightarrow> m0);
          dbs = (case m (Database cm) of None \<Rightarrow> DBS p @ [Database cm] | Some _ \<Rightarrow> DBS p);
          grp = (case m (Database cm) of None \<Rightarrow> [cm] | Some g \<Rightarrow> g @ [cm])
      in p\<lparr>DBS := dbs,
            NamespaceMetadatas := NamespaceMetadatas p @ [cm],
            NamespaceMetadatasByDB := Some (m(Database cm \<mapsto> grp))\<rparr>)"

text \<open>A sequence of \<^verbatim>\<open>AddMetadata\<close> calls, in order.\<close>

definition addAll :: "Prelude \<Rightarrow> CollectionMetadata list \<Rightarrow> Prelude" where
  "addAll p cms = foldl Prelude_AddMetadata p cms"

subsection \<open>NewPrelude\<close>

text \<open>
  Modelled from the spec: the file interface of the package \<^verbatim>\<open>intents\<close> is declared
  elsewhere. A metadata file is either an \<^verbatim>\<open>*archive.Metadata\<close> (lines 14-17: a
  buffer, here the text it holds) or some other implementation of the interface.
\<close>

datatype MetadataFile = ArchiveMetadata string | OtherFile

text \<open>
  Modelled from the spec: \<^verbatim>\<open>intents.Intent\<close> is declared in another package. An
  intent exposes its database, its collection and an optional metadata file (section 6
  of the specification); \<^verbatim>\<open>manager.Intents()\<close> is the list of the intents.
\<close>

record Intent =
  DB :: string
  C :: string
  MetadataFile :: "MetadataFile option"

text \<open>
  Lines 79-107. \<^verbatim>\<open>archiveFormatVersion\<close> is a constant declared elsewhere and is a
  parameter; \<^verbatim>\<open>int32(maxProcs)\<close> truncates the 64-bit \<^verbatim>\<open>int\<close>.
\<close>

definition newPreludeInit :: "string \<Rightarrow> 64 word \<Rightarrow> Prelude" where
  "newPreludeInit archiveFormatVersion maxProcs =
     \<lparr>Header = Some \<lparr>ArchiveFormatVersion = archiveFormatVersion,
                      ConcurrentCollections = ucast maxProcs\<rparr>,
      DBS = [], NamespaceMetadatas = [], NamespaceMetadatasByDB = Some Map.empty\<rparr>"

fun newPreludeLoop :: "Prelude \<Rightarrow> Intent list \<Rightarrow> error + Prelude" where
  "newPreludeLoop p [] = Inr p"
| "newPreludeLoop p (i # is) =
     (case MetadataFile i of
        Some (ArchiveMetadata txt) \<Rightarrow>
          newPreludeLoop (Prelude_AddMetadata p
            \<lparr>Database = DB i, Collection = C i, Metadata = txt, Size = 0\<rparr>) is
      | Some OtherFile \<Rightarrow> Inl ErrNotArchiveMetadata
      | None \<Rightarrow>
          newPreludeLoop (Prelude_AddMetadata p
            \<lparr>Database = DB i, Collection = C i, Metadata = [], Size = 0\<rparr>) is)"

definition NewPrelude :: "string \<Rightarrow> Intent list \<Rightarrow> 64 word \<Rightarrow> error + Prelude" where
  "NewPrelude archiveFormatVersion allIntents maxProcs =
     newPreludeLoop (newPreludeInit archiveFormatVersion maxProcs) allIntents"

subsection \<open>PreludeExplorer\<close>

record PreludeExplorer =
  prelude :: Prelude
  database :: string
  collection :: string
  isMetadata :: bool

definition NewPreludeExplorer :: "Prelude \<Rightarrow> PreludeExplorer" where
  "NewPreludeExplorer p = \<lparr>prelude = p, database = [], collection = [], isMetadata = False\<rparr>"

definition PreludeExplorer_Name :: "PreludeExplorer \<Rightarrow> string" where
  "PreludeExplorer_Name pe =
     (if collection pe = [] then database pe
      else if isMetadata pe then collection pe @ ''.metadata.json''
      else collection pe @ ''.bson'')"

text \<open>
  \<^verbatim>\<open>filepath.Join\<close> of the Go standard library, for the separator \<^verbatim>\<open>/\<close>: the
  elements from the first non-empty one on are joined with the separator and the result
  is cleaned lexically (\<^verbatim>\<open>filepath.Clean\<close>: empty and \<^verbatim>\<open>.\<close> elements are dropped, a
  \<^verbatim>\<open>..\<close> element removes the element before it, or is dropped at the root, or is
  kept at the front of a relative path; the empty result is \<^verbatim>\<open>.\<close>).
\<close>

fun splitSep :: "string \<Rightarrow> string list" where
  "splitSep [] = [[]]"
| "splitSep (c # cs) =
     (if c = CHR ''/'' then [] # splitSep cs
      else (case splitSep cs of [] \<Rightarrow> [[c]] | x # xs \<Rightarrow> (c # x) # xs))"

fun joinSep :: "string list \<Rightarrow> string" where
  "joinSep [] = []"
| "joinSep [x] = x"
| "joinSep (x # y # ys) = x @ ''/'' @ joinSep (y # ys)"

definition cleanStep :: "bool \<Rightarrow> string list \<Rightarrow> string \<Rightarrow> string list" where
  "cleanStep rooted st s =
     (if s = [] \<or> s = ''.'' then st
      else if s = ''..'' then
        (if st \<noteq> [] \<and> last st \<noteq> ''..'' then butlast st
         else if rooted then st
         else st @ [s])
      else st @ [s])"

definition filepath_Clean :: "string \<Rightarrow> string" where
  "filepath_Clean path =
     (if path = [] then ''.''
      else
        let rooted = (hd path = CHR ''/'');
            out = (if rooted then ''/'' else []) @
                  joinSep (foldl (cleanStep rooted) [] (splitSep path))
        in if out = [] then ''.'' else out)"

definition filepath_Join :: "string list \<Rightarrow> string" where
  "filepath_Join elems =
     (case dropWhile (\<lambda>e. e = []) elems of
        [] \<Rightarrow> []
      | e # es \<Rightarrow> filepath_Clean (joinSep (e # es)))"

definition PreludeExplorer_Path :: "PreludeExplorer \<Rightarrow> string" where
  "PreludeExplorer_Path pe =
     (if collection pe = [] then database pe
      else if database pe = [] then PreludeExplorer_Name pe
      else filepath_Join [database pe, PreludeExplorer_Name pe])"

definition PreludeExplorer_IsDir :: "PreludeExplorer \<Rightarrow> bool" where
  "PreludeExplorer_IsDir pe = (collection pe = [])"

text \<open>
  Lines 227-237: the loop returns at the first record of the flat sequence whose
  database and collection are the entry's.
\<close>

fun sizeLoop :: "CollectionMetadata list \<Rightarrow> string \<Rightarrow> string \<Rightarrow> 64 word" where
  "sizeLoop [] db c = 0"
| "sizeLoop (ns # rest) db c =
     (if Database ns = db \<and> Collection ns = c then Size ns else sizeLoop rest db c)"

definition PreludeExplorer_Size :: "PreludeExplorer \<Rightarrow> 64 word" where
  "PreludeExplorer_Size pe =
     (if PreludeExplorer_IsDir pe then 0
      else sizeLoop (NamespaceMetadatas (prelude pe)) (database pe) (collection pe))"

definition PreludeExplorer_Stat :: "PreludeExplorer \<Rightarrow> error + PreludeExplorer" where
  "PreludeExplorer_Stat pe = Inr pe"

text \<open>
  Lines 252-303. One record of a group gives the data entry and, when its metadata
  text is not empty, the metadata entry after it; the entries carry the database of the
  directory being read (the empty one at the root).
\<close>

definition entriesOf :: "Prelude \<Rightarrow> string \<Rightarrow> CollectionMetadata \<Rightarrow> PreludeExplorer list" where
  "entriesOf p db ns =
     \<lparr>prelude = p, database = db, collection = Collection ns, isMetadata = False\<rparr> #
     (if Metadata ns \<noteq> []
      then [\<lparr>prelude = p, database = db, collection = Collection ns, isMetadata = True\<rparr>]
      else [])"

definition dirEntry :: "Prelude \<Rightarrow> string \<Rightarrow> PreludeExplorer" where
  "dirEntry p db = \<lparr>prelude = p, database = db, collection = [], isMetadata = False\<rparr>"

definition PreludeExplorer_ReadDir :: "PreludeExplorer \<Rightarrow> error + PreludeExplorer list" where
  "PreludeExplorer_ReadDir pe =
     (if \<not> PreludeExplorer_IsDir pe then Inl ErrNotADirectory
      else if database pe = [] then
        Inr ((case lookupByDB (prelude pe) [] of
                None \<Rightarrow> []
              | Some topLevel \<Rightarrow> concat (map (entriesOf (prelude pe) []) topLevel)) @
             map (dirEntry (prelude pe)) (DBS (prelude pe)))
      else
        (case lookupByDB (prelude pe) (database pe) of
           None \<Rightarrow> Inl ErrNoSuchDirectory
         | Some nss \<Rightarrow> Inr (concat (map (entriesOf (prelude pe) (database pe)) nss))))"

definition PreludeExplorer_Parent :: "PreludeExplorer \<Rightarrow> PreludeExplorer" where
  "PreludeExplorer_Parent pe =
     (if collection pe \<noteq> []
      then \<lparr>prelude = prelude pe, database = database pe, collection = [], isMetadata = False\<rparr>
      else \<lparr>prelude = prelude pe, database = [], collection = [], isMetadata = False\<rparr>)"

subsection \<open>MetadataPreludeFile\<close>

text \<open>
  The embedded \<^verbatim>\<open>*bytes.Buffer\<close> is the text it holds, or \<^term>\<open>None\<close> when the
  pointer is nil. \<^verbatim>\<open>Open\<close> (lines 327-342) returns the file as left by the call
  and the error, if any.
\<close>

record MetadataPreludeFile =
  mpfIntent :: Intent
  mpfPrelude :: Prelude
  Buffer :: "string option"

fun findMetadata :: "CollectionMetadata list \<Rightarrow> string \<Rightarrow> string option" where
  "findMetadata [] c = None"
| "findMetadata (md # rest) c =
     (if Collection md = c then Some (Metadata md) else findMetadata rest c)"

definition MetadataPreludeFile_Open ::
  "MetadataPreludeFile \<Rightarrow> MetadataPreludeFile \<times> error option" where
  "MetadataPreludeFile_Open mpf =
     (if C (mpfIntent mpf) = [] then (mpf, Some ErrNoSuchFile)
      else
        (case lookupByDB (mpfPrelude mpf) (DB (mpfIntent mpf)) of
           None \<Rightarrow> (mpf, Some ErrNoSuchFile)
         | Some dbMetadatas \<Rightarrow>
             (case findMetadata dbMetadatas (C (mpfIntent mpf)) of
                Some txt \<Rightarrow> (mpf\<lparr>Buffer := Some txt\<rparr>, None)
              | None \<Rightarrow> (mpf, Some ErrNoSuchFile))))"

definition MetadataPreludeFile_Close ::
  "MetadataPreludeFile \<Rightarrow> MetadataPreludeFile \<times> error option" where
  "MetadataPreludeFile_Close mpf = (mpf\<lparr>Buffer := None\<rparr>, None)"

subsection \<open>What prelude.go uses and does not declare\<close>

text \<open>
  The constants \<^verbatim>\<open>MagicNumber\<close> and \<^verbatim>\<open>terminatorBytes\<close> are declared in another
  file of the package, and \<^verbatim>\<open>bson.Marshal\<close> and \<^verbatim>\<open>bson.Unmarshal\<close> belong to a
  library. They are parameters of the model. \<^verbatim>\<open>Unmarshal\<close> fills the value it is
  given and returns it with the error, if any.
\<close>

record Env =
  MagicNumber :: "32 word"
  terminatorBytes :: "byte list"
  marshalHeader :: "Header option \<Rightarrow> error + byte list"
  unmarshalHeader :: "byte list \<Rightarrow> Header \<Rightarrow> Header \<times> error option"
  marshalMetadata :: "CollectionMetadata \<Rightarrow> error + byte list"
  unmarshalMetadata ::
    "byte list \<Rightarrow> CollectionMetadata \<Rightarrow> CollectionMetadata \<times> error option"

text \<open>The zero values \<^verbatim>\<open>Header{}\<close> and \<^verbatim>\<open>CollectionMetadata{}\<close>.\<close>

definition zeroHeader :: Header where
  "zeroHeader = \<lparr>ArchiveFormatVersion = [], ConcurrentCollections = 0\<rparr>"

definition zeroMetadata :: CollectionMetadata where
  "zeroMetadata = \<lparr>Database = [], Collection = [], Metadata = [], Size = 0\<rparr>"

subsection \<open>Write\<close>

text \<open>
  An \<^verbatim>\<open>io.Writer\<close> is a state and a write operation that returns the new state and
  the error, if any (the count of bytes written is ignored by \<^verbatim>\<open>Write\<close>).
\<close>

type_synonym 'w writer = "'w \<Rightarrow> byte list \<Rightarrow> 'w \<times> error option"

text \<open>Lines 124-127: byte \<open>i\<close> is \<^verbatim>\<open>byte(uint32(MagicNumber) >> uint(i*8))\<close>.\<close>

definition magicNumberBytes :: "32 word \<Rightarrow> byte list" where
  "magicNumberBytes m = map (\<lambda>i. ucast (drop_bit (i * 8) m)) [0..<4]"

text \<open>Lines 140-149.\<close>

fun writeMetadatas ::
  "Env \<Rightarrow> 'w writer \<Rightarrow> CollectionMetadata list \<Rightarrow> 'w \<Rightarrow> 'w \<times> error option" where
  "writeMetadatas env out [] w = (w, None)"
| "writeMetadatas env out (cm # cms) w =
     (case marshalMetadata env cm of
        Inl err \<Rightarrow> (w, Some err)
      | Inr buf \<Rightarrow>
          (case out w buf of
             (w', Some err) \<Rightarrow> (w', Some err)
           | (w', None) \<Rightarrow> writeMetadatas env out cms w'))"

text \<open>Lines 123-155.\<close>

definition Prelude_Write :: "Env \<Rightarrow> 'w writer \<Rightarrow> Prelude \<Rightarrow> 'w \<Rightarrow> 'w \<times> error option" where
  "Prelude_Write env out p w =
     (case out w (magicNumberBytes (MagicNumber env)) of
        (w1, Some err) \<Rightarrow> (w1, Some err)
      | (w1, None) \<Rightarrow>
          (case marshalHeader env (Header p) of
             Inl err \<Rightarrow> (w1, Some err)
           | Inr buf \<Rightarrow>
               (case out w1 buf of
                  (w2, Some err) \<Rightarrow> (w2, Some err)
                | (w2, None) \<Rightarrow>
                    (case writeMetadatas env out (NamespaceMetadatas p) w2 of
                       (w3, Some err) \<Rightarrow> (w3, Some err)
                     | (w3, None) \<Rightarrow> out w3 (terminatorBytes env)))))"

text \<open>The sink \<^verbatim>\<open>bytes.Buffer\<close>: a write appends and never fails.\<close>

definition bufferWrite :: "byte list writer" where
  "bufferWrite w buf = (w @ buf, None)"

subsection \<open>The parser consumer of the prelude\<close>

text \<open>
  The three callbacks of \<^verbatim>\<open>ParserConsumer\<close>, over the state of the consumer. Lines
  163-186: \<^verbatim>\<open>HeaderBSON\<close> replaces the header by a fresh one and unmarshals into it;
  \<^verbatim>\<open>BodyBSON\<close> unmarshals into a fresh record and adds it only when that succeeds;
  \<^verbatim>\<open>End\<close> does nothing.
\<close>

record 's ParserConsumer =
  HeaderBSON :: "byte list \<Rightarrow> 's \<Rightarrow> 's \<times> error option"
  BodyBSON :: "byte list \<Rightarrow> 's \<Rightarrow> 's \<times> error option"
  End :: "'s \<Rightarrow> 's \<times> error option"

definition preludeParserConsumer :: "Env \<Rightarrow> Prelude ParserConsumer" where
  "preludeParserConsumer env =
     \<lparr>HeaderBSON = (\<lambda>data p.
        (case unmarshalHeader env data zeroHeader of
           (h, err) \<Rightarrow> (p\<lparr>Header := Some h\<rparr>, err))),
      BodyBSON = (\<lambda>data p.
        (case unmarshalMetadata env data zeroMetadata of
           (cm, Some err) \<Rightarrow> (p, Some err)
         | (cm, None) \<Rightarrow> (Prelude_AddMetadata p cm, None))),
      End = (\<lambda>p. (p, None))\<rparr>"

subsection \<open>The block parser\<close>

text \<open>The little-endian reading of four bytes, as lines 54-59 spell it out.\<close>

definition leUint32 :: "byte list \<Rightarrow> 32 word" where
  "leUint32 buf =
     push_bit 0 (ucast (buf ! 0)) OR push_bit 8 (ucast (buf ! 1)) OR
     push_bit 16 (ucast (buf ! 2)) OR push_bit 24 (ucast (buf ! 3))"

text \<open>
  Modelled from the spec: \<^verbatim>\<open>Parser.ReadBlock\<close> (the block parser of the package) is
  not among the sources. Sections 2, 4.1 and 6 of the specification: after the magic
  number the stream holds the header, as one self-delimited document, then zero or more
  documents, each self-delimited with no framing beyond BSON's own, then the fixed
  terminator byte sequence. The parser recognises the block boundaries and calls the
  consumer: the header callback on the first document, the body callback on every later
  one, the end callback at the terminator, where it stops; an error of a callback stops
  it at once. BSON's own framing is the total length of the document in its first four
  bytes, little-endian and signed; a document has at least five bytes.
  The stream is the list of the bytes still unread; reading past its end is
  \<^verbatim>\<open>io.EOF\<close> when nothing was left and \<^verbatim>\<open>io.ErrUnexpectedEOF\<close> otherwise.
\<close>

definition readBSONOrTerminator ::
  "Env \<Rightarrow> byte list \<Rightarrow> (error + byte list option) \<times> byte list" where
  "readBSONOrTerminator env inp =
     (if inp = [] then (Inl ErrEOF, [])
      else if take (length (terminatorBytes env)) inp = terminatorBytes env
        then (Inr None, drop (length (terminatorBytes env)) inp)
      else if length inp < 4 then (Inl ErrUnexpectedEOF, [])
      else
        let size = sint (leUint32 inp)
        in if size < 5 then (Inl (ErrParser ''malformed document length''), drop 4 inp)
           else if int (length inp) < size then (Inl ErrUnexpectedEOF, [])
           else (Inr (Some (take (nat size) inp)), drop (nat size) inp))"

text \<open>
  Modelled from the spec: the loop of \<^verbatim>\<open>Parser.ReadBlock\<close> over the documents of the
  block, with the flag \<open>first\<close> set for the header document only.
\<close>

function readBlocks ::
  "Env \<Rightarrow> 's ParserConsumer \<Rightarrow> bool \<Rightarrow> 's \<Rightarrow> byte list \<Rightarrow> 's \<times> byte list \<times> error option" where
  "readBlocks env consumer first s inp =
     (case readBSONOrTerminator env inp of
        (Inl err, rest) \<Rightarrow> (s, rest, Some err)
      | (Inr None, rest) \<Rightarrow> (case End consumer s of (s', err) \<Rightarrow> (s', rest, err))
      | (Inr (Some block), rest) \<Rightarrow>
          (case (if first then HeaderBSON consumer else BodyBSON consumer) block s of
             (s', Some err) \<Rightarrow> (s', rest, Some err)
           | (s', None) \<Rightarrow> readBlocks env consumer False s' rest))"
  by pat_completeness auto
termination
proof (relation "measure (\<lambda>(env, consumer, first, s, inp). length inp)")
  show "wf (measure (\<lambda>(env, consumer, first, s, inp). length inp))"
    by simp
next
  fix env :: Env and consumer :: "'s ParserConsumer" and first :: bool and s :: 's
    and inp :: "byte list" and x rest xa block xb s' xc
  assume "(x, rest) = readBSONOrTerminator env inp" and "x = Inr xa" and "xa = Some block"
  then have "readBSONOrTerminator env inp = (Inr (Some block), rest)"
    by simp
  then have "length rest < length inp"
    by (auto simp: readBSONOrTerminator_def Let_def split: if_splits)
  then show "((env, consumer, False, s', rest), env, consumer, first, s, inp)
      \<in> measure (\<lambda>(env, consumer, first, s, inp). length inp)"
    by simp
qed

declare readBlocks.simps [simp del]

subsection \<open>Read\<close>

text \<open>
  Modelled from the spec: \<^verbatim>\<open>Parser.ReadBlock\<close>, one block read from the start of
  the stream and dispatched to the consumer as described above.
\<close>

definition Parser_ReadBlock ::
  "Env \<Rightarrow> 's ParserConsumer \<Rightarrow> 's \<Rightarrow> byte list \<Rightarrow> 's \<times> byte list \<times> error option" where
  "Parser_ReadBlock env consumer s inp = readBlocks env consumer True s inp"

text \<open>
  Lines 48-76. The reader is the list of the bytes still unread; the result is the
  prelude as the call leaves it, the bytes still unread, and the error, if any.
  \<^verbatim>\<open>io.ReadAtLeast\<close> into a buffer of four bytes takes four bytes, or fails with
  \<^verbatim>\<open>io.EOF\<close> on an empty stream and \<^verbatim>\<open>io.ErrUnexpectedEOF\<close> on a shorter one.
  The by-database map is replaced by an empty one only when it is not nil.
\<close>

definition Prelude_Read :: "Env \<Rightarrow> Prelude \<Rightarrow> byte list \<Rightarrow> Prelude \<times> byte list \<times> error option" where
  "Prelude_Read env p inp =
     (if length inp < 4 then (p, [], Some (if inp = [] then ErrEOF else ErrUnexpectedEOF))
      else
        let magicNumberBuf = take 4 inp;
            rest = drop 4 inp;
            magicNumber = leUint32 magicNumberBuf
        in if magicNumber \<noteq> MagicNumber env then (p, rest, Some ErrNotAnArchive)
           else
             let p1 = (if NamespaceMetadatasByDB p \<noteq> None
                       then p\<lparr>NamespaceMetadatasByDB := Some Map.empty\<rparr> else p)
             in Parser_ReadBlock env (preludeParserConsumer env) p1 rest)"

subsection \<open>Notions of the specification\<close>

text \<open>
  The distinct elements of a list in the order in which they are first seen: the head,
  then the first-seen elements of the tail without it.
\<close>

fun firstSeen :: "'a list \<Rightarrow> 'a list" where
  "firstSeen [] = []"
| "firstSeen (x # xs) = x # filter (\<lambda>y. y \<noteq> x) (firstSeen xs)"

text \<open>
  Emitting a sequence of items in order, each one either a failed serialisation or the
  bytes to write: the first failure, of a serialisation or of a write, ends the emission
  and is the result, with the sink as that last write left it.
\<close>

fun emitAll :: "'w writer \<Rightarrow> (error + byte list) list \<Rightarrow> 'w \<Rightarrow> 'w \<times> error option" where
  "emitAll out [] w = (w, None)"
| "emitAll out (Inl err # items) w = (w, Some err)"
| "emitAll out (Inr buf # items) w =
     (case out w buf of
        (w', Some err) \<Rightarrow> (w', Some err)
      | (w', None) \<Rightarrow> emitAll out items w')"

text \<open>
  A document the block parser takes as one block: its first four bytes give its own
  length, of five bytes at least, and it does not start with the terminator.
\<close>

definition selfDelimited :: "Env \<Rightarrow> byte list \<Rightarrow> bool" where
  "selfDelimited env doc \<longleftrightarrow>
     5 \<le> length doc \<and> sint (leUint32 doc) = int (length doc) \<and>
     length (terminatorBytes env) \<le> length doc \<and>
     take (length (terminatorBytes env)) doc \<noteq> terminatorBytes env"

text \<open>
  What the round trip needs of the BSON library at one value: marshalling succeeds, gives
  a self-delimited document, and unmarshalling that document into a zero value gives the
  value back.
\<close>

definition headerRoundTrips :: "Env \<Rightarrow> Header \<Rightarrow> bool" where
  "headerRoundTrips env h =
     (case marshalHeader env (Some h) of
        Inl err \<Rightarrow> False
      | Inr buf \<Rightarrow> selfDelimited env buf \<and> unmarshalHeader env buf zeroHeader = (h, None))"

definition metadataRoundTrips :: "Env \<Rightarrow> CollectionMetadata \<Rightarrow> bool" where
  "metadataRoundTrips env cm =
     (case marshalMetadata env cm of
        Inl err \<Rightarrow> False
      | Inr buf \<Rightarrow> selfDelimited env buf \<and> unmarshalMetadata env buf zeroMetadata = (cm, None))"

text \<open>The bytes that \<^verbatim>\<open>Write\<close> produces when every serialisation succeeds.\<close>

definition marshalledBytes :: "(error + byte list) \<Rightarrow> byte list" where
  "marshalledBytes r = (case r of Inl err \<Rightarrow> [] | Inr buf \<Rightarrow> buf)"

definition preludeBytes :: "Env \<Rightarrow> Prelude \<Rightarrow> byte list" where
  "preludeBytes env p =
     magicNumberBytes (MagicNumber env) @
     marshalledBytes (marshalHeader env (Header p)) @
     concat (map (\<lambda>cm. marshalledBytes (marshalMetadata env cm)) (NamespaceMetadatas p)) @
     terminatorBytes env"

subsection \<open>A concrete instance\<close>

text \<open>
  An instance of the parameters at which the theorems are exercised: a magic number, the
  terminator \<^verbatim>\<open>ff ff ff ff\<close> (the length \<open>-1\<close>, which no document has), and a BSON
  codec for the two structs. A document is its length in four little-endian bytes, its
  elements and a zero byte; an element is a type byte (2 for a string, 16 for an int32,
  18 for an int64), the key as a zero-terminated string, and the value; a string value
  is its length plus one in four bytes, its bytes and a zero byte. The keys are the
  lower-cased field names. Unmarshalling sets the fields whose keys it knows and fails on
  a document it cannot parse.
\<close>

definition le32 :: "32 word \<Rightarrow> byte list" where
  "le32 v = map (\<lambda>i. ucast (drop_bit (i * 8) v)) [0..<4]"

definition le64 :: "64 word \<Rightarrow> byte list" where
  "le64 v = map (\<lambda>i. ucast (drop_bit (i * 8) v)) [0..<8]"

definition leUint64 :: "byte list \<Rightarrow> 64 word" where
  "leUint64 buf = horner_sum ucast (256 :: 64 word) (take 8 buf)"

definition byteOfChar :: "char \<Rightarrow> byte" where
  "byteOfChar c = of_char c"

definition charOfByte :: "byte \<Rightarrow> char" where
  "charOfByte b = char_of (unat b)"

definition bsonCString :: "string \<Rightarrow> byte list" where
  "bsonCString k = map byteOfChar k @ [0]"

definition bsonStringElem :: "string \<Rightarrow> string \<Rightarrow> byte list" where
  "bsonStringElem k v =
     2 # bsonCString k @ le32 (word_of_nat (length v + 1)) @ map byteOfChar v @ [0]"

definition bsonInt32Elem :: "string \<Rightarrow> 32 word \<Rightarrow> byte list" where
  "bsonInt32Elem k v = 16 # bsonCString k @ le32 v"

definition bsonInt64Elem :: "string \<Rightarrow> 64 word \<Rightarrow> byte list" where
  "bsonInt64Elem k v = 18 # bsonCString k @ le64 v"

definition bsonDocument :: "byte list \<Rightarrow> byte list" where
  "bsonDocument elems = le32 (word_of_nat (length elems + 5)) @ elems @ [0]"

definition bsonHeader :: "Header \<Rightarrow> byte list" where
  "bsonHeader h = bsonDocument
     (bsonStringElem ''archiveformatversion'' (ArchiveFormatVersion h) @
      bsonInt32Elem ''concurrentcollections'' (ConcurrentCollections h))"

definition bsonMetadata :: "CollectionMetadata \<Rightarrow> byte list" where
  "bsonMetadata cm = bsonDocument
     (bsonStringElem ''database'' (Database cm) @
      bsonStringElem ''collection'' (Collection cm) @
      bsonStringElem ''metadata'' (Metadata cm) @
      bsonInt64Elem ''size'' (Size cm))"

datatype bsonValue = BString string | BInt32 "32 word" | BInt64 "64 word"

definition parseCString :: "byte list \<Rightarrow> (string \<times> byte list) option" where
  "parseCString bs =
     (if 0 \<in> set bs
      then Some (map charOfByte (takeWhile (\<lambda>b. b \<noteq> 0) bs),
                 tl (dropWhile (\<lambda>b. b \<noteq> 0) bs))
      else None)"

definition parseValue :: "byte \<Rightarrow> byte list \<Rightarrow> (bsonValue \<times> byte list) option" where
  "parseValue t bs =
     (if t = 2 then
        (if length bs < 4 then None
         else
           let n = unat (leUint32 bs)
           in if n < 1 \<or> length bs < 4 + n \<or> bs ! (3 + n) \<noteq> 0 then None
              else Some (BString (map charOfByte (take (n - 1) (drop 4 bs))), drop (4 + n) bs))
      else if t = 16 then
        (if length bs < 4 then None else Some (BInt32 (leUint32 bs), drop 4 bs))
      else if t = 18 then
        (if length bs < 8 then None else Some (BInt64 (leUint64 bs), drop 8 bs))
      else None)"

fun parseElems :: "nat \<Rightarrow> byte list \<Rightarrow> (string \<times> bsonValue) list option" where
  "parseElems 0 bs = None"
| "parseElems (Suc fuel) [] = None"
| "parseElems (Suc fuel) (t # bs) =
     (if t = 0 then (if bs = [] then Some [] else None)
      else
        (case parseCString bs of
           None \<Rightarrow> None
         | Some (k, bs1) \<Rightarrow>
             (case parseValue t bs1 of
                None \<Rightarrow> None
              | Some (v, bs2) \<Rightarrow>
                  (case parseElems fuel bs2 of
                     None \<Rightarrow> None
                   | Some kvs \<Rightarrow> Some ((k, v) # kvs)))))"

definition parseDocument :: "byte list \<Rightarrow> (string \<times> bsonValue) list option" where
  "parseDocument data =
     (if length data < 5 \<or> unat (leUint32 data) \<noteq> length data then None
      else parseElems (length data) (drop 4 data))"

definition setHeaderField :: "Header \<Rightarrow> string \<times> bsonValue \<Rightarrow> Header" where
  "setHeaderField h kv =
     (case kv of
        (k, BString v) \<Rightarrow> (if k = ''archiveformatversion'' then h\<lparr>ArchiveFormatVersion := v\<rparr> else h)
      | (k, BInt32 v) \<Rightarrow> (if k = ''concurrentcollections'' then h\<lparr>ConcurrentCollections := v\<rparr> else h)
      | (k, BInt64 v) \<Rightarrow>
          (if k = ''concurrentcollections'' then h\<lparr>ConcurrentCollections := ucast v\<rparr> else h))"

definition setMetadataField ::
  "CollectionMetadata \<Rightarrow> string \<times> bsonValue \<Rightarrow> CollectionMetadata" where
  "setMetadataField cm kv =
     (case kv of
        (k, BString v) \<Rightarrow>
          (if k = ''database'' then cm\<lparr>Database := v\<rparr>
           else if k = ''collection'' then cm\<lparr>Collection := v\<rparr>
           else if k = ''metadata'' then cm\<lparr>Metadata := v\<rparr>
           else cm)
      | (k, BInt32 v) \<Rightarrow> (if k = ''size'' then cm\<lparr>Size := scast v\<rparr> else cm)
      | (k, BInt64 v) \<Rightarrow> (if k = ''size'' then cm\<lparr>Size := v\<rparr> else cm))"

definition sampleEnv :: Env where
  "sampleEnv =
     \<lparr>MagicNumber = 0x8199e26d,
      terminatorBytes = [0xff, 0xff, 0xff, 0xff],
      marshalHeader = (\<lambda>ho.
        (case ho of
           None \<Rightarrow> Inl (ErrOther ''cannot marshal nil'')
         | Some h \<Rightarrow> Inr (bsonHeader h))),
      unmarshalHeader = (\<lambda>data h.
        (case parseDocument data of
           None \<Rightarrow> (h, Some (ErrOther ''document is corrupted''))
         | Some kvs \<Rightarrow> (foldl setHeaderField h kvs, None))),
      marshalMetadata = (\<lambda>cm. Inr (bsonMetadata cm)),
      unmarshalMetadata = (\<lambda>data cm.
        (case parseDocument data of
           None \<Rightarrow> (cm, Some (ErrOther ''document is corrupted''))
         | Some kvs \<Rightarrow> (foldl setMetadataField cm kvs, None)))\<rparr>"

text \<open>A header and four records: two databases, and an oplog with no database.\<close>

definition sampleHeader :: Header where
  "sampleHeader = \<lparr>ArchiveFormatVersion = ''0.1'', ConcurrentCollections = 4\<rparr>"

definition sampleC1 :: CollectionMetadata where
  "sampleC1 = \<lparr>Database = ''db1'', Collection = ''c1'', Metadata = ''{}'', Size = 100\<rparr>"

definition sampleC2 :: CollectionMetadata where
  "sampleC2 = \<lparr>Database = ''db1'', Collection = ''c2'', Metadata = [], Size = 0\<rparr>"

definition sampleC3 :: CollectionMetadata where
  "sampleC3 = \<lparr>Database = ''db2'', Collection = ''c3'', Metadata = [], Size = 7\<rparr>"

definition sampleOplog :: CollectionMetadata where
  "sampleOplog = \<lparr>Database = [], Collection = ''oplog'', Metadata = [], Size = 0\<rparr>"

definition samplePrelude :: Prelude where
  "samplePrelude = addAll emptyPrelude [sampleC1, sampleC3, sampleC2]"

text \<open>A sink that holds at most \<open>cap\<close> bytes: a write that does not fit is cut short and fails.\<close>

definition limitedWrite :: "nat \<Rightarrow> byte list writer" where
  "limitedWrite cap w buf =
     (if length w + length buf \<le> cap then (w @ buf, None)
      else (w @ take (cap - length w) buf, Some (ErrOther ''short write'')))"

section \<open>Properties\<close>

subsection \<open>AddMetadata and the two views\<close>

lemma firstSeen_filter: "firstSeen (filter P xs) = filter P (firstSeen xs)"
  by (induction xs) (auto simp: conj_commute intro: filter_cong)

lemma set_firstSeen: "set (firstSeen xs) = set xs"
  by (induction xs) auto

lemma distinct_firstSeen: "distinct (firstSeen xs)"
  by (induction xs) auto

lemma AddMetadata_flat:
  "NamespaceMetadatas (Prelude_AddMetadata p cm) = NamespaceMetadatas p @ [cm]"
  by (simp add: Prelude_AddMetadata_def Let_def)

lemma AddMetadata_Header: "Header (Prelude_AddMetadata p cm) = Header p"
  by (simp add: Prelude_AddMetadata_def Let_def)

lemma AddMetadata_lookup:
  "lookupByDB (Prelude_AddMetadata p cm) d =
     (if d = Database cm
      then Some ((case lookupByDB p d of None \<Rightarrow> [] | Some g \<Rightarrow> g) @ [cm])
      else lookupByDB p d)"
  by (simp add: Prelude_AddMetadata_def lookupByDB_def Let_def split: option.splits)

lemma AddMetadata_DBS:
  "DBS (Prelude_AddMetadata p cm) =
     (if lookupByDB p (Database cm) = None then DBS p @ [Database cm] else DBS p)"
  by (auto simp add: Prelude_AddMetadata_def lookupByDB_def Let_def split: option.splits)

lemma AddMetadata_made: "NamespaceMetadatasByDB (Prelude_AddMetadata p cm) \<noteq> None"
  by (simp add: Prelude_AddMetadata_def Let_def)

lemma addAll_Nil: "addAll p [] = p"
  by (simp add: addAll_def)

lemma addAll_Cons: "addAll p (cm # cms) = addAll (Prelude_AddMetadata p cm) cms"
  by (simp add: addAll_def)

lemma addAll_snoc: "addAll p (cms @ [cm]) = Prelude_AddMetadata (addAll p cms) cm"
  by (simp add: addAll_def)

lemma addAll_flat: "NamespaceMetadatas (addAll p cms) = NamespaceMetadatas p @ cms"
  by (induction cms arbitrary: p) (simp_all add: addAll_Nil addAll_Cons AddMetadata_flat)

lemma addAll_Header: "Header (addAll p cms) = Header p"
  by (induction cms arbitrary: p) (simp_all add: addAll_Nil addAll_Cons AddMetadata_Header)

text \<open>
  The group of a database after a sequence of calls: what was there, then the records of
  that database in the order of the calls.
\<close>

lemma addAll_lookup:
  "lookupByDB (addAll p cms) d =
     (case lookupByDB p d of
        None \<Rightarrow> (if d \<in> Database ` set cms
                 then Some (filter (\<lambda>cm. Database cm = d) cms) else None)
      | Some g \<Rightarrow> Some (g @ filter (\<lambda>cm. Database cm = d) cms))"
proof (induction cms arbitrary: p)
  case Nil
  show ?case by (simp add: addAll_Nil split: option.splits)
next
  case (Cons cm cms)
  show ?case
    by (auto simp add: addAll_Cons Cons.IH AddMetadata_lookup split: option.splits)
qed

text \<open>The database list grows by the databases that had no group, in first-seen order.\<close>

lemma addAll_DBS:
  "DBS (addAll p cms) =
     DBS p @ firstSeen (filter (\<lambda>d. lookupByDB p d = None) (map Database cms))"
proof (induction cms arbitrary: p)
  case Nil
  show ?case by (simp add: addAll_Nil)
next
  case (Cons cm cms)
  have eq: "filter (\<lambda>d. lookupByDB (Prelude_AddMetadata p cm) d = None) xs =
        filter (\<lambda>d. d \<noteq> Database cm) (filter (\<lambda>d. lookupByDB p d = None) xs)" for xs
    by (induction xs) (auto simp: AddMetadata_lookup)
  show ?case
  proof (cases "lookupByDB p (Database cm)")
    case None
    then show ?thesis
      by (simp add: addAll_Cons Cons.IH AddMetadata_DBS eq firstSeen_filter)
  next
    case (Some g)
    then have "filter (\<lambda>d. d \<noteq> Database cm) (filter (\<lambda>d. lookupByDB p d = None) xs) =
        filter (\<lambda>d. lookupByDB p d = None) xs" for xs
      by (induction xs) auto
    with Some show ?thesis
      by (simp add: addAll_Cons Cons.IH AddMetadata_DBS eq)
  qed
qed

subsection \<open>Bytes and blocks\<close>

lemma magicNumberBytes_eq:
  "magicNumberBytes m =
     [ucast m, ucast (drop_bit 8 m), ucast (drop_bit 16 m), ucast (drop_bit 24 m)]"
  by (simp add: magicNumberBytes_def upt_rec)

lemma leUint32_magicNumberBytes: "leUint32 (magicNumberBytes m @ rest) = m"
proof (rule bit_word_eqI)
  fix n assume "n < LENGTH(32)"
  then consider "n < 8" | "8 \<le> n" "n < 16" | "16 \<le> n" "n < 24" | "24 \<le> n" "n < 32"
    by fastforce
  then show "bit (leUint32 (magicNumberBytes m @ rest)) n = bit m n"
    by cases (auto simp add: magicNumberBytes_eq leUint32_def bit_simps)
qed

lemma leUint32_take4: "4 \<le> length inp \<Longrightarrow> leUint32 (take 4 inp) = leUint32 inp"
  by (simp add: leUint32_def)

lemma leUint32_append: "4 \<le> length doc \<Longrightarrow> leUint32 (doc @ rest) = leUint32 doc"
  by (auto simp add: leUint32_def nth_append)

lemma read_document:
  assumes "selfDelimited env doc"
  shows "readBSONOrTerminator env (doc @ rest) = (Inr (Some doc), rest)"
  using assms
  by (auto simp add: readBSONOrTerminator_def selfDelimited_def Let_def leUint32_append)

lemma read_terminator:
  assumes "terminatorBytes env \<noteq> []"
  shows "readBSONOrTerminator env (terminatorBytes env @ rest) = (Inr None, rest)"
  using assms by (simp add: readBSONOrTerminator_def)

lemma selfDelimited_terminator: "selfDelimited env doc \<Longrightarrow> terminatorBytes env \<noteq> []"
  by (auto simp add: selfDelimited_def)

lemma consumer_HeaderBSON:
  "HeaderBSON (preludeParserConsumer env) data p =
     (p\<lparr>Header := Some (fst (unmarshalHeader env data zeroHeader))\<rparr>,
      snd (unmarshalHeader env data zeroHeader))"
  by (simp add: preludeParserConsumer_def split: prod.splits)

lemma consumer_BodyBSON:
  "BodyBSON (preludeParserConsumer env) data p =
     (case snd (unmarshalMetadata env data zeroMetadata) of
        Some err \<Rightarrow> (p, Some err)
      | None \<Rightarrow> (Prelude_AddMetadata p (fst (unmarshalMetadata env data zeroMetadata)), None))"
  by (simp add: preludeParserConsumer_def split: prod.splits option.splits)

lemma consumer_End: "End (preludeParserConsumer env) p = (p, None)"
  by (simp add: preludeParserConsumer_def)

subsection \<open>Reading what was written\<close>

text \<open>
  The body loop of the parser over marshalled records and the terminator: every record
  is added, in order, and the bytes after the terminator are left unread.
\<close>

lemma readBlocks_bodies:
  assumes "\<forall>cm\<in>set cms. metadataRoundTrips env cm" and "terminatorBytes env \<noteq> []"
  shows "readBlocks env (preludeParserConsumer env) False p
           (concat (map (\<lambda>cm. marshalledBytes (marshalMetadata env cm)) cms) @
            terminatorBytes env @ rest) =
         (addAll p cms, rest, None)"
  using assms(1)
proof (induction cms arbitrary: p)
  case Nil
  show ?case
    by (subst readBlocks.simps)
       (simp add: read_terminator [OF assms(2)] consumer_End addAll_Nil)
next
  case (Cons cm cms)
  from Cons.prems obtain buf where buf: "marshalMetadata env cm = Inr buf"
    "selfDelimited env buf" "unmarshalMetadata env buf zeroMetadata = (cm, None)"
    by (auto simp add: metadataRoundTrips_def split: sum.splits)
  have IH: "readBlocks env (preludeParserConsumer env) False (Prelude_AddMetadata p cm)
           (concat (map (\<lambda>cm. marshalledBytes (marshalMetadata env cm)) cms) @
            terminatorBytes env @ rest) =
         (addAll (Prelude_AddMetadata p cm) cms, rest, None)"
    using Cons.IH Cons.prems by simp
  show ?case
    by (subst readBlocks.simps)
       (simp add: buf(1,3) marshalledBytes_def [of "Inr buf"] read_document [OF buf(2)]
          consumer_BodyBSON IH addAll_Cons)
qed

lemma ReadBlock_written:
  assumes h: "headerRoundTrips env h" and cms: "\<forall>cm\<in>set cms. metadataRoundTrips env cm"
  shows "Parser_ReadBlock env (preludeParserConsumer env) p
           (marshalledBytes (marshalHeader env (Some h)) @
            concat (map (\<lambda>cm. marshalledBytes (marshalMetadata env cm)) cms) @
            terminatorBytes env @ rest) =
         (addAll (p\<lparr>Header := Some h\<rparr>) cms, rest, None)"
proof -
  from h obtain buf where buf: "marshalHeader env (Some h) = Inr buf"
    "selfDelimited env buf" "unmarshalHeader env buf zeroHeader = (h, None)"
    by (auto simp add: headerRoundTrips_def split: sum.splits)
  have t: "terminatorBytes env \<noteq> []"
    using buf(2) by (rule selfDelimited_terminator)
  show ?thesis
    unfolding Parser_ReadBlock_def
    by (subst readBlocks.simps)
       (simp add: buf(1,3) marshalledBytes_def [of "Inr buf"] read_document [OF buf(2)]
          consumer_HeaderBSON readBlocks_bodies [OF cms t])
qed

lemma Read_written:
  assumes h: "headerRoundTrips env h" and cms: "\<forall>cm\<in>set cms. metadataRoundTrips env cm"
  shows "Prelude_Read env p
           (magicNumberBytes (MagicNumber env) @
            marshalledBytes (marshalHeader env (Some h)) @
            concat (map (\<lambda>cm. marshalledBytes (marshalMetadata env cm)) cms) @
            terminatorBytes env @ rest) =
         (addAll ((if NamespaceMetadatasByDB p \<noteq> None
                   then p\<lparr>NamespaceMetadatasByDB := Some Map.empty\<rparr>
                   else p)\<lparr>Header := Some h\<rparr>) cms, rest, None)"
proof -
  have len: "length (magicNumberBytes (MagicNumber env)) = 4"
    by (simp add: magicNumberBytes_eq)
  have magic: "leUint32 (magicNumberBytes (MagicNumber env)) = MagicNumber env"
    using leUint32_magicNumberBytes [of "MagicNumber env" "[]"] by simp
  show ?thesis
    unfolding Prelude_Read_def
    by (simp add: len magic Let_def ReadBlock_written [OF h cms] del: append_assoc)
qed

lemma writeMetadatas_buffer:
  assumes "\<forall>cm\<in>set cms. \<exists>buf. marshalMetadata env cm = Inr buf"
  shows "writeMetadatas env bufferWrite cms w =
         (w @ concat (map (\<lambda>cm. marshalledBytes (marshalMetadata env cm)) cms), None)"
  using assms
  by (induction cms arbitrary: w) (auto simp add: bufferWrite_def marshalledBytes_def)

lemma Write_buffer:
  assumes "marshalHeader env (Header p) = Inr hb"
    and "\<forall>cm\<in>set (NamespaceMetadatas p). \<exists>buf. marshalMetadata env cm = Inr buf"
  shows "Prelude_Write env bufferWrite p w = (w @ preludeBytes env p, None)"
  using assms(1) writeMetadatas_buffer [OF assms(2)]
  by (simp add: Prelude_Write_def preludeBytes_def bufferWrite_def marshalledBytes_def)

lemma AddMetadata_nil_map:
  "Prelude_AddMetadata (p\<lparr>NamespaceMetadatasByDB := None\<rparr>) cm =
   Prelude_AddMetadata (p\<lparr>NamespaceMetadatasByDB := Some Map.empty\<rparr>) cm"
  by (simp add: Prelude_AddMetadata_def)

lemma addAll_nil_map:
  "cms \<noteq> [] \<Longrightarrow>
   addAll (p\<lparr>NamespaceMetadatasByDB := None\<rparr>) cms =
   addAll (p\<lparr>NamespaceMetadatasByDB := Some Map.empty\<rparr>) cms"
  by (cases cms) (simp_all add: addAll_Cons AddMetadata_nil_map)

lemma roundTrips_marshal:
  "metadataRoundTrips env cm \<Longrightarrow> \<exists>buf. marshalMetadata env cm = Inr buf"
  by (auto simp add: metadataRoundTrips_def split: sum.splits)

subsection \<open>The concrete instance round-trips its values\<close>

lemmas bson_defs = bsonHeader_def bsonMetadata_def bsonDocument_def bsonStringElem_def
  bsonInt32Elem_def bsonInt64Elem_def bsonCString_def le32_def le64_def byteOfChar_def
  parseDocument_def parseCString_def parseValue_def leUint32_def leUint64_def charOfByte_def
  char_of_def bit_Suc_0_iff setHeaderField_def setMetadataField_def upt_rec

lemma sampleHeader_roundTrips: "headerRoundTrips sampleEnv sampleHeader"
  by (simp add: headerRoundTrips_def selfDelimited_def sampleEnv_def sampleHeader_def
      zeroHeader_def bson_defs)

lemma sampleC1_roundTrips: "metadataRoundTrips sampleEnv sampleC1"
  by (simp add: metadataRoundTrips_def selfDelimited_def sampleEnv_def sampleC1_def
      zeroMetadata_def bson_defs)

lemma sampleC2_roundTrips: "metadataRoundTrips sampleEnv sampleC2"
  by (simp add: metadataRoundTrips_def selfDelimited_def sampleEnv_def sampleC2_def
      zeroMetadata_def bson_defs)

lemma sampleC3_roundTrips: "metadataRoundTrips sampleEnv sampleC3"
  by (simp add: metadataRoundTrips_def selfDelimited_def sampleEnv_def sampleC3_def
      zeroMetadata_def bson_defs)

subsection \<open>The round trip\<close>

text \<open>
  C1 (round-trip law). Let \<open>P\<close> be built by \<^verbatim>\<open>AddMetadata\<close> from a non-empty list of
  records, starting from a prelude that has a header and no records (its map nil, as in
  \<^verbatim>\<open>Prelude{}\<close>, or made and empty, as in \<^verbatim>\<open>NewPrelude\<close>). If the BSON library
  round-trips the header and every record of \<open>P\<close>, then \<^verbatim>\<open>Write\<close> of \<open>P\<close> into a
  buffer succeeds, and \<^verbatim>\<open>Read\<close> of the written bytes into a fresh empty prelude
  succeeds, leaves unread exactly what follows the prelude, and yields a prelude equal to
  \<open>P\<close>: same header, same ordered metadata sequence, same database list, same
  by-database grouping. The block parser is the one modelled from the specification.
\<close>

theorem prelude_round_trip:
  assumes "cms \<noteq> []" and "m0 = None \<or> m0 = Some Map.empty"
    and "headerRoundTrips env h" and "\<forall>cm\<in>set cms. metadataRoundTrips env cm"
  shows "\<exists>bytes.
           Prelude_Write env bufferWrite
             (addAll \<lparr>Header = Some h, DBS = [], NamespaceMetadatas = [],
                      NamespaceMetadatasByDB = m0\<rparr> cms) [] = (bytes, None) \<and>
           Prelude_Read env emptyPrelude (bytes @ rest) =
             (addAll \<lparr>Header = Some h, DBS = [], NamespaceMetadatas = [],
                      NamespaceMetadatasByDB = m0\<rparr> cms, rest, None)"
proof -
  let ?p0 = "\<lparr>Header = Some h, DBS = [], NamespaceMetadatas = [],
              NamespaceMetadatasByDB = m0\<rparr>"
  let ?P = "addAll ?p0 cms"
  have flat: "NamespaceMetadatas ?P = cms" and hd: "Header ?P = Some h"
    by (simp_all add: addAll_flat addAll_Header)
  obtain hb where hb: "marshalHeader env (Some h) = Inr hb"
    using assms(3) by (auto simp add: headerRoundTrips_def split: sum.splits)
  have w: "Prelude_Write env bufferWrite ?P [] = (preludeBytes env ?P, None)"
    using Write_buffer [of env ?P hb "[]"] hb assms(4)
    by (simp add: flat hd roundTrips_marshal)
  have "addAll (emptyPrelude\<lparr>Header := Some h\<rparr>) cms = ?P"
    using assms(2) addAll_nil_map [OF assms(1), of ?p0]
    by (auto simp add: emptyPrelude_def)
  then have r: "Prelude_Read env emptyPrelude (preludeBytes env ?P @ rest) = (?P, rest, None)"
    using Read_written [OF assms(3,4), of emptyPrelude rest]
    by (simp add: preludeBytes_def flat hd emptyPrelude_def)
  from w r show ?thesis by blast
qed

theorem prelude_round_trip_witness:
  "\<exists>bytes.
     Prelude_Write sampleEnv bufferWrite
       (addAll \<lparr>Header = Some sampleHeader, DBS = [], NamespaceMetadatas = [],
                NamespaceMetadatasByDB = Some Map.empty\<rparr>
          [sampleC1, sampleC3, sampleC2]) [] = (bytes, None) \<and>
     Prelude_Read sampleEnv emptyPrelude bytes =
       (addAll \<lparr>Header = Some sampleHeader, DBS = [], NamespaceMetadatas = [],
                NamespaceMetadatasByDB = Some Map.empty\<rparr>
          [sampleC1, sampleC3, sampleC2], [], None)"
  using prelude_round_trip [of "[sampleC1, sampleC3, sampleC2]" "Some Map.empty"
      sampleEnv sampleHeader "[]"]
    sampleHeader_roundTrips sampleC1_roundTrips sampleC2_roundTrips sampleC3_roundTrips
  by simp

subsection \<open>Magic rejection\<close>

text \<open>
  C2 (magic rejection). On every stream of at least four bytes whose first four bytes,
  read little-endian, are not the magic number, \<^verbatim>\<open>Read\<close> fails with the error "stream
  or file does not apear to be a mongodump archive", leaves unread everything after
  those four bytes, and leaves the prelude as it was: header, ordered metadata
  sequence, by-database index and database list.
\<close>

theorem magic_rejection:
  assumes "(ucast b0 OR push_bit 8 (ucast b1) OR push_bit 16 (ucast b2) OR
            push_bit 24 (ucast b3) :: 32 word) \<noteq> MagicNumber env"
  shows "Prelude_Read env p (b0 # b1 # b2 # b3 # rest) = (p, rest, Some ErrNotAnArchive)"
  using assms by (simp add: Prelude_Read_def leUint32_def Let_def)

theorem magic_rejection_witness:
  "Prelude_Read sampleEnv (addAll emptyPrelude [sampleC1]) [0x6d, 0xe2, 0x99, 0x80, 5, 0, 0, 0, 0] =
     (addAll emptyPrelude [sampleC1], [5, 0, 0, 0, 0], Some ErrNotAnArchive)"
  using magic_rejection [of "0x6d" "0xe2" "0x99" "0x80" sampleEnv "addAll emptyPrelude [sampleC1]"
      "[5, 0, 0, 0, 0]"]
  by (simp add: sampleEnv_def)

subsection \<open>Dual-view consistency\<close>

lemma emptyPrelude_lookup: "lookupByDB emptyPrelude d = None"
  by (simp add: lookupByDB_def emptyPrelude_def)

lemma count_list_filter:
  "P r \<Longrightarrow> count_list (filter P xs) r = count_list xs r"
  by (induction xs) auto

text \<open>
  C3 (dual-view consistency), as amended. After any sequence \<open>cms\<close> of
  \<^verbatim>\<open>AddMetadata\<close> calls on the empty prelude: the flat sequence is \<open>cms\<close>; the
  database list holds the databases of \<open>cms\<close> in first-seen order, each once; the group
  of a listed database is the subsequence of the flat sequence with that database, in
  the same order, and no other key has a group; hence every record of a group has the
  database of the group, is in the flat sequence, and occurs in the flat sequence
  exactly as often as in its group, once for every call that added it.
  \<^verbatim>\<open>AddMetadata\<close> appends without looking for the record in the sequence.
\<close>

theorem dual_view_consistency:
  "NamespaceMetadatas (addAll emptyPrelude cms) = cms \<and>
   DBS (addAll emptyPrelude cms) = firstSeen (map Database cms) \<and>
   distinct (DBS (addAll emptyPrelude cms)) \<and>
   set (DBS (addAll emptyPrelude cms)) = Database ` set cms \<and>
   (\<forall>d. lookupByDB (addAll emptyPrelude cms) d =
      (if d \<in> set (DBS (addAll emptyPrelude cms))
       then Some (filter (\<lambda>cm. Database cm = d) cms) else None)) \<and>
   (\<forall>d g r. lookupByDB (addAll emptyPrelude cms) d = Some g \<and> r \<in> set g \<longrightarrow>
      Database r = d \<and> r \<in> set cms \<and> count_list cms r = count_list g r)"
proof -
  let ?p = "addAll emptyPrelude cms"
  have "DBS emptyPrelude = []"
    by (simp add: emptyPrelude_def)
  then have dbs: "DBS ?p = firstSeen (map Database cms)"
    by (simp add: addAll_DBS emptyPrelude_lookup)
  have lk: "lookupByDB ?p d =
      (if d \<in> Database ` set cms then Some (filter (\<lambda>cm. Database cm = d) cms) else None)" for d
    by (simp add: addAll_lookup emptyPrelude_lookup)
  have flat: "NamespaceMetadatas ?p = cms"
    by (simp add: addAll_flat emptyPrelude_def)
  have grp: "Database r = d \<and> r \<in> set cms \<and> count_list cms r = count_list g r"
    if "lookupByDB ?p d = Some g" and "r \<in> set g" for d g r
  proof -
    from that(1) have g: "g = filter (\<lambda>cm. Database cm = d) cms"
      by (simp add: lk split: if_splits)
    with that(2) have r: "Database r = d" "r \<in> set cms"
      by simp_all
    have "count_list g r = count_list cms r"
      unfolding g using r(1) by (intro count_list_filter)
    then show ?thesis using r by simp
  qed
  have sdbs: "set (DBS ?p) = Database ` set cms"
    by (simp add: dbs set_firstSeen)
  have lk': "\<forall>d. lookupByDB ?p d =
      (if d \<in> set (DBS ?p) then Some (filter (\<lambda>cm. Database cm = d) cms) else None)"
    unfolding sdbs using lk by blast
  have "distinct (DBS ?p)"
    by (simp add: dbs distinct_firstSeen)
  with flat dbs sdbs lk' grp show ?thesis
    by blast
qed

text \<open>
  The claim as stated says that every record reachable through the grouping appears
  exactly once in the flat sequence, after every sequence of calls. After two calls with
  the same record, that record is in the group of its database and appears twice in the
  flat sequence.
\<close>

theorem record_added_twice_counterexample:
  "lookupByDB (addAll emptyPrelude [sampleC1, sampleC1]) ''db1'' = Some [sampleC1, sampleC1] \<and>
   NamespaceMetadatas (addAll emptyPrelude [sampleC1, sampleC1]) = [sampleC1, sampleC1] \<and>
   count_list (NamespaceMetadatas (addAll emptyPrelude [sampleC1, sampleC1])) sampleC1 = 2"
proof -
  have e: "NamespaceMetadatas emptyPrelude = []"
    by (simp add: emptyPrelude_def)
  have l: "lookupByDB (addAll emptyPrelude [sampleC1, sampleC1]) ''db1'' =
      Some [sampleC1, sampleC1]"
    by (simp add: addAll_lookup emptyPrelude_lookup sampleC1_def)
  have f: "NamespaceMetadatas (addAll emptyPrelude [sampleC1, sampleC1]) = [sampleC1, sampleC1]"
    by (simp add: addAll_flat e)
  have c: "count_list (NamespaceMetadatas (addAll emptyPrelude [sampleC1, sampleC1])) sampleC1 = 2"
    unfolding f by simp
  from l f c show ?thesis
    by (intro conjI)
qed

theorem dual_view_consistency_witness:
  "NamespaceMetadatas (addAll emptyPrelude [sampleC1, sampleC3, sampleC2]) =
     [sampleC1, sampleC3, sampleC2] \<and>
   DBS (addAll emptyPrelude [sampleC1, sampleC3, sampleC2]) = [''db1'', ''db2''] \<and>
   lookupByDB (addAll emptyPrelude [sampleC1, sampleC3, sampleC2]) ''db1'' =
     Some [sampleC1, sampleC2] \<and>
   lookupByDB (addAll emptyPrelude [sampleC1, sampleC3, sampleC2]) ''db2'' = Some [sampleC3] \<and>
   lookupByDB (addAll emptyPrelude [sampleC1, sampleC3, sampleC2]) ''db3'' = None \<and>
   count_list [sampleC1, sampleC3, sampleC2] sampleC2 = count_list [sampleC1, sampleC2] sampleC2"
proof -
  note t = dual_view_consistency [of "[sampleC1, sampleC3, sampleC2]"]
  note flat = t [THEN conjunct1]
  note t2 = t [THEN conjunct2, THEN conjunct1]
  note t5 = t [THEN conjunct2, THEN conjunct2, THEN conjunct2, THEN conjunct2, THEN conjunct1,
      rule_format]
  note t6 = t [THEN conjunct2, THEN conjunct2, THEN conjunct2, THEN conjunct2, THEN conjunct2,
      rule_format]
  have dbs: "DBS (addAll emptyPrelude [sampleC1, sampleC3, sampleC2]) = [''db1'', ''db2'']"
    using t2 by (simp add: sampleC1_def sampleC2_def sampleC3_def)
  have l1: "lookupByDB (addAll emptyPrelude [sampleC1, sampleC3, sampleC2]) ''db1'' =
     Some [sampleC1, sampleC2]"
    using t5 [of "''db1''"] unfolding dbs by (simp add: sampleC1_def sampleC2_def sampleC3_def)
  have l2: "lookupByDB (addAll emptyPrelude [sampleC1, sampleC3, sampleC2]) ''db2'' =
     Some [sampleC3]"
    using t5 [of "''db2''"] unfolding dbs by (simp add: sampleC1_def sampleC2_def sampleC3_def)
  have l3: "lookupByDB (addAll emptyPrelude [sampleC1, sampleC3, sampleC2]) ''db3'' = None"
    using t5 [of "''db3''"] unfolding dbs by simp
  have m: "sampleC2 \<in> set [sampleC1, sampleC2]"
    by simp
  have c: "count_list [sampleC1, sampleC3, sampleC2] sampleC2 =
      count_list [sampleC1, sampleC2] sampleC2"
    using t6 [of "''db1''" "[sampleC1, sampleC2]" sampleC2, OF conjI [OF l1 m]]
    by (elim conjE)
  from flat dbs l1 l2 l3 c show ?thesis
    by (intro conjI)
qed

subsection \<open>Names, paths and sizes\<close>

text \<open>
  C8 (path and name synthesis). The data entry of database \<^verbatim>\<open>db1\<close> and collection
  \<^verbatim>\<open>c1\<close> has the name \<^verbatim>\<open>c1.bson\<close> and the path \<^verbatim>\<open>db1/c1.bson\<close>; its metadata
  entry has the name \<^verbatim>\<open>c1.metadata.json\<close>; an entry with no collection has its
  database as name and as path; an entry with no database and a collection has its name
  as path.
\<close>

theorem path_and_name_synthesis:
  "PreludeExplorer_Name (pe\<lparr>database := ''db1'', collection := ''c1'', isMetadata := False\<rparr>) =
     ''c1.bson'' \<and>
   PreludeExplorer_Path (pe\<lparr>database := ''db1'', collection := ''c1'', isMetadata := False\<rparr>) =
     ''db1/c1.bson'' \<and>
   PreludeExplorer_Name (pe\<lparr>database := ''db1'', collection := ''c1'', isMetadata := True\<rparr>) =
     ''c1.metadata.json'' \<and>
   PreludeExplorer_Name (pe\<lparr>collection := []\<rparr>) = database pe \<and>
   PreludeExplorer_Path (pe\<lparr>collection := []\<rparr>) = database pe \<and>
   PreludeExplorer_Path (pe\<lparr>database := [], collection := c # cs\<rparr>) =
     PreludeExplorer_Name (pe\<lparr>database := [], collection := c # cs\<rparr>)"
  by (simp add: PreludeExplorer_Name_def PreludeExplorer_Path_def filepath_Join_def
      filepath_Clean_def cleanStep_def)

lemma sizeLoop_find:
  "sizeLoop xs d c =
     (case find (\<lambda>ns. Database ns = d \<and> Collection ns = c) xs of
        None \<Rightarrow> 0 | Some ns \<Rightarrow> Size ns)"
  by (induction xs) auto

text \<open>
  C4 (size synthesis), as amended. The size of an entry is 0 when it has no collection;
  otherwise it is the \<^verbatim>\<open>Size\<close> of the first record of the flat sequence with the
  database and the collection of the entry, or 0 when there is none. The method does
  not look at \<^verbatim>\<open>isMetadata\<close>: a metadata entry has the size of its data entry.
\<close>

theorem size_synthesis_amended:
  "PreludeExplorer_Size pe =
     (if collection pe = [] then 0
      else case find (\<lambda>ns. Database ns = database pe \<and> Collection ns = collection pe)
                  (NamespaceMetadatas (prelude pe)) of
             None \<Rightarrow> 0 | Some ns \<Rightarrow> Size ns)"
  by (simp add: PreludeExplorer_Size_def PreludeExplorer_IsDir_def sizeLoop_find)

text \<open>
  The claim as stated says that a metadata entry has size 0. The metadata entry of a
  collection recorded with size 100 has size 100.
\<close>

theorem size_of_metadata_entry_counterexample:
  "PreludeExplorer_Size
     \<lparr>prelude = addAll emptyPrelude [sampleC1],
      database = ''db1'', collection = ''c1'', isMetadata = True\<rparr> = 100"
  by (simp add: PreludeExplorer_Size_def PreludeExplorer_IsDir_def addAll_flat
      emptyPrelude_def sampleC1_def)

theorem size_synthesis_amended_witness:
  "PreludeExplorer_Size
     \<lparr>prelude = addAll emptyPrelude [sampleC3, sampleC1],
      database = ''db1'', collection = ''c1'', isMetadata = False\<rparr> = 100 \<and>
   PreludeExplorer_Size
     \<lparr>prelude = addAll emptyPrelude [sampleC3, sampleC1],
      database = ''db1'', collection = ''c7'', isMetadata = False\<rparr> = 0 \<and>
   PreludeExplorer_Size
     \<lparr>prelude = addAll emptyPrelude [sampleC3, sampleC1],
      database = ''db1'', collection = [], isMetadata = False\<rparr> = 0"
  by (simp add: size_synthesis_amended addAll_flat emptyPrelude_def sampleC1_def sampleC3_def)

subsection \<open>The read-side metadata file\<close>

lemma findMetadata_find:
  "findMetadata g c = map_option Metadata (find (\<lambda>md. Collection md = c) g)"
  by (induction g) auto

lemma find_None_image: "find (\<lambda>md. Collection md = c) g = None \<longleftrightarrow> c \<notin> Collection ` set g"
  by (auto simp add: find_None_iff)

lemma find_Some_image:
  "find (\<lambda>md. Collection md = c) g = Some md \<Longrightarrow> c \<in> Collection ` set g"
  by (induction g) (auto split: if_splits)

text \<open>
  C9 (read-side metadata accessor). \<^verbatim>\<open>Open\<close> fails with the no-such-file error
  exactly when the collection of the intent is empty, or the database of the intent has
  no group in the by-database index, or no record of that group has the collection of
  the intent; it fails in no other way, and a failed \<^verbatim>\<open>Open\<close> leaves the file as it
  was. Otherwise it succeeds and the buffer holds the metadata text of the first record
  of the group with that collection. \<^verbatim>\<open>Close\<close> sets the buffer to nil and succeeds,
  so after \<^verbatim>\<open>Open\<close> and \<^verbatim>\<open>Close\<close> the buffer is nil.
\<close>

theorem metadata_file_open_close:
  "(snd (MetadataPreludeFile_Open mpf) = Some ErrNoSuchFile \<longleftrightarrow>
      C (mpfIntent mpf) = [] \<or>
      lookupByDB (mpfPrelude mpf) (DB (mpfIntent mpf)) = None \<or>
      (\<exists>g. lookupByDB (mpfPrelude mpf) (DB (mpfIntent mpf)) = Some g \<and>
           C (mpfIntent mpf) \<notin> Collection ` set g)) \<and>
   (snd (MetadataPreludeFile_Open mpf) = Some ErrNoSuchFile \<or>
    snd (MetadataPreludeFile_Open mpf) = None) \<and>
   (snd (MetadataPreludeFile_Open mpf) = Some ErrNoSuchFile \<longrightarrow>
      fst (MetadataPreludeFile_Open mpf) = mpf) \<and>
   (\<forall>g md. C (mpfIntent mpf) \<noteq> [] \<and>
      lookupByDB (mpfPrelude mpf) (DB (mpfIntent mpf)) = Some g \<and>
      find (\<lambda>md. Collection md = C (mpfIntent mpf)) g = Some md \<longrightarrow>
      MetadataPreludeFile_Open mpf = (mpf\<lparr>Buffer := Some (Metadata md)\<rparr>, None)) \<and>
   MetadataPreludeFile_Close mpf = (mpf\<lparr>Buffer := None\<rparr>, None) \<and>
   Buffer (fst (MetadataPreludeFile_Close (fst (MetadataPreludeFile_Open mpf)))) = None"
  by (auto simp add: MetadataPreludeFile_Open_def MetadataPreludeFile_Close_def
      findMetadata_find find_None_image dest: find_Some_image split: option.splits)

theorem metadata_file_open_close_witness:
  "MetadataPreludeFile_Open
     \<lparr>mpfIntent = \<lparr>DB = ''db1'', C = ''c1'', MetadataFile = None\<rparr>,
      mpfPrelude = addAll emptyPrelude [sampleC1, sampleC3, sampleC2], Buffer = None\<rparr> =
     (\<lparr>mpfIntent = \<lparr>DB = ''db1'', C = ''c1'', MetadataFile = None\<rparr>,
       mpfPrelude = addAll emptyPrelude [sampleC1, sampleC3, sampleC2],
       Buffer = Some ''{}''\<rparr>, None) \<and>
   snd (MetadataPreludeFile_Open
     \<lparr>mpfIntent = \<lparr>DB = ''db1'', C = ''c9'', MetadataFile = None\<rparr>,
      mpfPrelude = addAll emptyPrelude [sampleC1, sampleC3, sampleC2], Buffer = None\<rparr>) =
     Some ErrNoSuchFile"
proof -
  let ?P = "addAll emptyPrelude [sampleC1, sampleC3, sampleC2]"
  have g: "lookupByDB ?P ''db1'' = Some [sampleC1, sampleC2]"
    by (simp add: addAll_lookup emptyPrelude_lookup sampleC1_def sampleC2_def sampleC3_def)
  have hit: "find (\<lambda>md. Collection md = ''c1'') [sampleC1, sampleC2] = Some sampleC1"
    by (simp add: sampleC1_def)
  have miss: "''c9'' \<notin> Collection ` set [sampleC1, sampleC2]"
    by (simp add: sampleC1_def sampleC2_def)
  note t = metadata_file_open_close
  note t1 = t [of "\<lparr>mpfIntent = \<lparr>DB = ''db1'', C = ''c1'', MetadataFile = None\<rparr>,
      mpfPrelude = ?P, Buffer = None\<rparr>", THEN conjunct2, THEN conjunct2, THEN conjunct2,
      THEN conjunct1, rule_format, of "[sampleC1, sampleC2]" sampleC1]
  note t2 = t [of "\<lparr>mpfIntent = \<lparr>DB = ''db1'', C = ''c9'', MetadataFile = None\<rparr>,
      mpfPrelude = ?P, Buffer = None\<rparr>", THEN conjunct1]
  have a: "MetadataPreludeFile_Open
     \<lparr>mpfIntent = \<lparr>DB = ''db1'', C = ''c1'', MetadataFile = None\<rparr>,
      mpfPrelude = ?P, Buffer = None\<rparr> =
     (\<lparr>mpfIntent = \<lparr>DB = ''db1'', C = ''c1'', MetadataFile = None\<rparr>,
       mpfPrelude = ?P, Buffer = Some ''{}''\<rparr>, None)"
    using t1 g hit by (simp add: sampleC1_def)
  have b: "snd (MetadataPreludeFile_Open
     \<lparr>mpfIntent = \<lparr>DB = ''db1'', C = ''c9'', MetadataFile = None\<rparr>,
      mpfPrelude = ?P, Buffer = None\<rparr>) = Some ErrNoSuchFile"
    using t2 g miss by simp
  from a b show ?thesis by (intro conjI)
qed

subsection \<open>Directory listings\<close>

lemma init_lookup:
  "m0 = None \<or> m0 = Some Map.empty \<Longrightarrow>
   lookupByDB \<lparr>Header = ho, DBS = [], NamespaceMetadatas = [], NamespaceMetadatasByDB = m0\<rparr> d = None"
  by (auto simp add: lookupByDB_def)

lemma ReadDir_root:
  "PreludeExplorer_ReadDir (NewPreludeExplorer p) =
     Inr ((case lookupByDB p [] of None \<Rightarrow> []
           | Some topLevel \<Rightarrow> concat (map (entriesOf p []) topLevel)) @
          map (dirEntry p) (DBS p))"
  by (simp add: PreludeExplorer_ReadDir_def NewPreludeExplorer_def PreludeExplorer_IsDir_def
      split: option.splits)

lemma ReadDir_database:
  "db \<noteq> [] \<Longrightarrow>
   PreludeExplorer_ReadDir (dirEntry p db) =
     (case lookupByDB p db of None \<Rightarrow> Inl ErrNoSuchDirectory
      | Some nss \<Rightarrow> Inr (concat (map (entriesOf p db) nss)))"
  by (simp add: PreludeExplorer_ReadDir_def dirEntry_def PreludeExplorer_IsDir_def
      split: option.splits)

text \<open>
  C6 (tree synthesis). Let the prelude be built by \<^verbatim>\<open>AddMetadata\<close> from records that
  all have a database, whose databases in first-seen order are \<^verbatim>\<open>db1\<close>, \<^verbatim>\<open>db2\<close>,
  and of which those of \<^verbatim>\<open>db1\<close> are, in order, \<^verbatim>\<open>c1\<close> with metadata text and
  \<^verbatim>\<open>c2\<close> without. Then \<^verbatim>\<open>ReadDir\<close> on the root explorer gives exactly the
  directory entries \<^verbatim>\<open>db1\<close>, \<^verbatim>\<open>db2\<close>, and \<^verbatim>\<open>ReadDir\<close> on the entry
  \<^verbatim>\<open>db1\<close> gives exactly the entries named \<^verbatim>\<open>c1.bson\<close>, \<^verbatim>\<open>c1.metadata.json\<close>,
  \<^verbatim>\<open>c2.bson\<close>, in this order. On every entry with a collection \<^verbatim>\<open>ReadDir\<close> fails
  with "not a directory"; on every database entry whose database has no group in the
  by-database index it fails with "no such directory".
\<close>

theorem tree_synthesis:
  assumes "m0 = None \<or> m0 = Some Map.empty"
    and "P = addAll \<lparr>Header = ho, DBS = [], NamespaceMetadatas = [],
                     NamespaceMetadatasByDB = m0\<rparr> cms"
    and "\<forall>cm\<in>set cms. Database cm \<noteq> []"
    and "firstSeen (map Database cms) = [''db1'', ''db2'']"
    and "map Collection (filter (\<lambda>cm. Database cm = ''db1'') cms) = [''c1'', ''c2'']"
    and "map (\<lambda>cm. Metadata cm \<noteq> []) (filter (\<lambda>cm. Database cm = ''db1'') cms) = [True, False]"
  shows "PreludeExplorer_ReadDir (NewPreludeExplorer P) =
           Inr [\<lparr>prelude = P, database = ''db1'', collection = [], isMetadata = False\<rparr>,
                \<lparr>prelude = P, database = ''db2'', collection = [], isMetadata = False\<rparr>] \<and>
         PreludeExplorer_ReadDir
             \<lparr>prelude = P, database = ''db1'', collection = [], isMetadata = False\<rparr> =
           Inr [\<lparr>prelude = P, database = ''db1'', collection = ''c1'', isMetadata = False\<rparr>,
                \<lparr>prelude = P, database = ''db1'', collection = ''c1'', isMetadata = True\<rparr>,
                \<lparr>prelude = P, database = ''db1'', collection = ''c2'', isMetadata = False\<rparr>] \<and>
         map PreludeExplorer_Name
             [\<lparr>prelude = P, database = ''db1'', collection = [], isMetadata = False\<rparr>,
              \<lparr>prelude = P, database = ''db2'', collection = [], isMetadata = False\<rparr>] =
           [''db1'', ''db2''] \<and>
         map PreludeExplorer_Name
             [\<lparr>prelude = P, database = ''db1'', collection = ''c1'', isMetadata = False\<rparr>,
              \<lparr>prelude = P, database = ''db1'', collection = ''c1'', isMetadata = True\<rparr>,
              \<lparr>prelude = P, database = ''db1'', collection = ''c2'', isMetadata = False\<rparr>] =
           [''c1.bson'', ''c1.metadata.json'', ''c2.bson''] \<and>
         (\<forall>pe. collection pe \<noteq> [] \<longrightarrow> PreludeExplorer_ReadDir pe = Inl ErrNotADirectory) \<and>
         (\<forall>pe. collection pe = [] \<and> database pe \<noteq> [] \<and>
               lookupByDB (prelude pe) (database pe) = None \<longrightarrow>
               PreludeExplorer_ReadDir pe = Inl ErrNoSuchDirectory)"
proof -
  let ?p0 = "\<lparr>Header = ho, DBS = [], NamespaceMetadatas = [], NamespaceMetadatasByDB = m0\<rparr>"
  have l0: "lookupByDB ?p0 d = None" for d
    using assms(1) by (rule init_lookup)
  have dbs: "DBS P = [''db1'', ''db2'']"
    by (simp add: assms(2,4) addAll_DBS l0)
  have "[] \<notin> Database ` set cms"
    using assms(3) by auto
  then have top: "lookupByDB P [] = None"
    by (simp add: assms(2) addAll_lookup l0)
  have "''db1'' \<in> set (firstSeen (map Database cms))"
    by (simp add: assms(4))
  then have "''db1'' \<in> Database ` set cms"
    by (simp add: set_firstSeen)
  then have g: "lookupByDB P ''db1'' = Some (filter (\<lambda>cm. Database cm = ''db1'') cms)"
    by (simp add: assms(2) addAll_lookup l0)
  obtain r1 r2 where rs: "filter (\<lambda>cm. Database cm = ''db1'') cms = [r1, r2]"
    using assms(5) by (auto simp add: map_eq_Cons_conv)
  have r: "Collection r1 = ''c1''" "Collection r2 = ''c2''" "Metadata r1 \<noteq> []" "Metadata r2 = []"
    using assms(5,6) unfolding rs by simp_all
  have root: "PreludeExplorer_ReadDir (NewPreludeExplorer P) =
           Inr [\<lparr>prelude = P, database = ''db1'', collection = [], isMetadata = False\<rparr>,
                \<lparr>prelude = P, database = ''db2'', collection = [], isMetadata = False\<rparr>]"
    by (simp add: ReadDir_root top dbs dirEntry_def)
  have db1: "PreludeExplorer_ReadDir
             \<lparr>prelude = P, database = ''db1'', collection = [], isMetadata = False\<rparr> =
           Inr [\<lparr>prelude = P, database = ''db1'', collection = ''c1'', isMetadata = False\<rparr>,
                \<lparr>prelude = P, database = ''db1'', collection = ''c1'', isMetadata = True\<rparr>,
                \<lparr>prelude = P, database = ''db1'', collection = ''c2'', isMetadata = False\<rparr>]"
    using ReadDir_database [of "''db1''" P]
    by (simp add: dirEntry_def g rs entriesOf_def r)
  have names: "map PreludeExplorer_Name
             [\<lparr>prelude = P, database = ''db1'', collection = [], isMetadata = False\<rparr>,
              \<lparr>prelude = P, database = ''db2'', collection = [], isMetadata = False\<rparr>] =
           [''db1'', ''db2'']"
     "map PreludeExplorer_Name
             [\<lparr>prelude = P, database = ''db1'', collection = ''c1'', isMetadata = False\<rparr>,
              \<lparr>prelude = P, database = ''db1'', collection = ''c1'', isMetadata = True\<rparr>,
              \<lparr>prelude = P, database = ''db1'', collection = ''c2'', isMetadata = False\<rparr>] =
           [''c1.bson'', ''c1.metadata.json'', ''c2.bson'']"
    by (simp_all add: PreludeExplorer_Name_def)
  have e1: "\<forall>pe. collection pe \<noteq> [] \<longrightarrow> PreludeExplorer_ReadDir pe = Inl ErrNotADirectory"
    by (simp add: PreludeExplorer_ReadDir_def PreludeExplorer_IsDir_def)
  have e2: "\<forall>pe. collection pe = [] \<and> database pe \<noteq> [] \<and>
               lookupByDB (prelude pe) (database pe) = None \<longrightarrow>
               PreludeExplorer_ReadDir pe = Inl ErrNoSuchDirectory"
    by (simp add: PreludeExplorer_ReadDir_def PreludeExplorer_IsDir_def)
  from root db1 names e1 e2 show ?thesis
    by (intro conjI)
qed

theorem tree_synthesis_witness:
  "PreludeExplorer_ReadDir (NewPreludeExplorer samplePrelude) =
     Inr [\<lparr>prelude = samplePrelude, database = ''db1'', collection = [], isMetadata = False\<rparr>,
          \<lparr>prelude = samplePrelude, database = ''db2'', collection = [], isMetadata = False\<rparr>] \<and>
   PreludeExplorer_ReadDir
       \<lparr>prelude = samplePrelude, database = ''db1'', collection = [], isMetadata = False\<rparr> =
     Inr [\<lparr>prelude = samplePrelude, database = ''db1'', collection = ''c1'', isMetadata = False\<rparr>,
          \<lparr>prelude = samplePrelude, database = ''db1'', collection = ''c1'', isMetadata = True\<rparr>,
          \<lparr>prelude = samplePrelude, database = ''db1'', collection = ''c2'', isMetadata = False\<rparr>] \<and>
   PreludeExplorer_ReadDir
       \<lparr>prelude = samplePrelude, database = ''db1'', collection = ''c1'', isMetadata = False\<rparr> =
     Inl ErrNotADirectory \<and>
   PreludeExplorer_ReadDir
       \<lparr>prelude = samplePrelude, database = ''db9'', collection = [], isMetadata = False\<rparr> =
     Inl ErrNoSuchDirectory"
proof -
  have a: "samplePrelude = addAll \<lparr>Header = None, DBS = [], NamespaceMetadatas = [],
                     NamespaceMetadatasByDB = None\<rparr> [sampleC1, sampleC3, sampleC2]"
    by (simp add: samplePrelude_def emptyPrelude_def)
  have b: "\<forall>cm\<in>set [sampleC1, sampleC3, sampleC2]. Database cm \<noteq> []"
    "firstSeen (map Database [sampleC1, sampleC3, sampleC2]) = [''db1'', ''db2'']"
    "map Collection (filter (\<lambda>cm. Database cm = ''db1'') [sampleC1, sampleC3, sampleC2]) =
       [''c1'', ''c2'']"
    "map (\<lambda>cm. Metadata cm \<noteq> [])
       (filter (\<lambda>cm. Database cm = ''db1'') [sampleC1, sampleC3, sampleC2]) = [True, False]"
    by (simp_all add: sampleC1_def sampleC2_def sampleC3_def)
  note t = tree_synthesis [of None samplePrelude None "[sampleC1, sampleC3, sampleC2]",
      OF _ a b]
  have l: "lookupByDB samplePrelude ''db9'' = None"
    by (simp add: samplePrelude_def addAll_lookup emptyPrelude_lookup
        sampleC1_def sampleC2_def sampleC3_def)
  have c: "PreludeExplorer_ReadDir
       \<lparr>prelude = samplePrelude, database = ''db1'', collection = ''c1'', isMetadata = False\<rparr> =
     Inl ErrNotADirectory"
    using t by simp
  have d: "PreludeExplorer_ReadDir
       \<lparr>prelude = samplePrelude, database = ''db9'', collection = [], isMetadata = False\<rparr> =
     Inl ErrNoSuchDirectory"
    using t l by simp
  from t c d show ?thesis
    by simp
qed

text \<open>
  C5 (top-level namespace). The listing of the root, evaluated on the prelude built from
  an oplog record with no database and one record of \<^verbatim>\<open>db1\<close>: the oplog data entry,
  then a directory entry for the empty database name, then the directory entry
  \<^verbatim>\<open>db1\<close>. \<^verbatim>\<open>AddMetadata\<close> puts the empty name into \<^verbatim>\<open>DBS\<close> like any other,
  and the loop over \<^verbatim>\<open>DBS\<close> at the root does not leave it out. That second entry is
  the root explorer again, so its own listing is the same and holds the oplog.
\<close>

theorem root_lists_empty_database_directory:
  "PreludeExplorer_ReadDir (NewPreludeExplorer (addAll emptyPrelude [sampleOplog, sampleC1])) =
     Inr [\<lparr>prelude = addAll emptyPrelude [sampleOplog, sampleC1], database = [],
            collection = ''oplog'', isMetadata = False\<rparr>,
          \<lparr>prelude = addAll emptyPrelude [sampleOplog, sampleC1], database = [],
            collection = [], isMetadata = False\<rparr>,
          \<lparr>prelude = addAll emptyPrelude [sampleOplog, sampleC1], database = ''db1'',
            collection = [], isMetadata = False\<rparr>] \<and>
   PreludeExplorer_ReadDir
     \<lparr>prelude = addAll emptyPrelude [sampleOplog, sampleC1], database = [],
       collection = [], isMetadata = False\<rparr> =
     Inr [\<lparr>prelude = addAll emptyPrelude [sampleOplog, sampleC1], database = [],
            collection = ''oplog'', isMetadata = False\<rparr>,
          \<lparr>prelude = addAll emptyPrelude [sampleOplog, sampleC1], database = [],
            collection = [], isMetadata = False\<rparr>,
          \<lparr>prelude = addAll emptyPrelude [sampleOplog, sampleC1], database = ''db1'',
            collection = [], isMetadata = False\<rparr>]"
proof -
  let ?P = "addAll emptyPrelude [sampleOplog, sampleC1]"
  have "DBS emptyPrelude = []"
    by (simp add: emptyPrelude_def)
  then have dbs: "DBS ?P = [[], ''db1'']"
    by (simp add: addAll_DBS emptyPrelude_lookup sampleOplog_def sampleC1_def)
  have top: "lookupByDB ?P [] = Some [sampleOplog]"
    by (simp add: addAll_lookup emptyPrelude_lookup sampleOplog_def sampleC1_def)
  have m: "Metadata sampleOplog = []" "Collection sampleOplog = ''oplog''"
    by (simp_all add: sampleOplog_def)
  have root: "PreludeExplorer_ReadDir (NewPreludeExplorer ?P) =
     Inr [\<lparr>prelude = ?P, database = [], collection = ''oplog'', isMetadata = False\<rparr>,
          \<lparr>prelude = ?P, database = [], collection = [], isMetadata = False\<rparr>,
          \<lparr>prelude = ?P, database = ''db1'', collection = [], isMetadata = False\<rparr>]"
    unfolding ReadDir_root by (simp add: dbs top entriesOf_def dirEntry_def m)
  then show ?thesis
    by (simp add: NewPreludeExplorer_def)
qed

subsection \<open>Write\<close>

lemma writeMetadatas_emitAll:
  "(case writeMetadatas env out cms w of
      (w', Some err) \<Rightarrow> (w', Some err)
    | (w', None) \<Rightarrow> emitAll out items w') =
   emitAll out (map (marshalMetadata env) cms @ items) w"
proof (induction cms arbitrary: w)
  case Nil
  show ?case by simp
next
  case (Cons cm cms)
  show ?case
  proof (cases "marshalMetadata env cm")
    case (Inl err)
    then show ?thesis by simp
  next
    case (Inr buf)
    obtain w' e where o: "out w buf = (w', e)"
      by (cases "out w buf")
    show ?thesis
      using Cons.IH [of w'] by (cases e) (simp_all add: Inr o)
  qed
qed

lemma emitAll_last: "emitAll out [Inr buf] w = out w buf"
  by (cases "out w buf") (auto split: option.splits)

lemma Write_emitAll:
  "Prelude_Write env out p w =
     emitAll out
       (Inr (magicNumberBytes (MagicNumber env)) # marshalHeader env (Header p) #
        map (marshalMetadata env) (NamespaceMetadatas p) @ [Inr (terminatorBytes env)]) w"
proof -
  obtain w1 e1 where o1: "out w (magicNumberBytes (MagicNumber env)) = (w1, e1)"
    by (cases "out w (magicNumberBytes (MagicNumber env))")
  show ?thesis
  proof (cases e1)
    case (Some err)
    then show ?thesis by (simp add: Prelude_Write_def o1)
  next
    case None
    note n1 = this
    show ?thesis
    proof (cases "marshalHeader env (Header p)")
      case (Inl err)
      then show ?thesis by (simp add: Prelude_Write_def o1 n1)
    next
      case (Inr hb)
      obtain w2 e2 where o2: "out w1 hb = (w2, e2)"
        by (cases "out w1 hb")
      show ?thesis
      proof (cases e2)
        case (Some err)
        then show ?thesis by (simp add: Prelude_Write_def o1 n1 Inr o2)
      next
        case None
        have "Prelude_Write env out p w =
            (case writeMetadatas env out (NamespaceMetadatas p) w2 of
               (w3, Some err) \<Rightarrow> (w3, Some err)
             | (w3, None) \<Rightarrow> emitAll out [Inr (terminatorBytes env)] w3)"
          by (simp add: Prelude_Write_def o1 n1 Inr o2 None split: prod.splits option.splits)
        then show ?thesis
          by (simp add: writeMetadatas_emitAll o1 n1 Inr o2 None)
      qed
    qed
  qed
qed

lemma emitAll_buffer:
  "emitAll bufferWrite (map Inr bufs) w = (w @ concat bufs, None)"
  by (induction bufs arbitrary: w) (simp_all add: bufferWrite_def)

lemma emitAll_abort:
  "emitAll out pre w = (w1, None) \<Longrightarrow> out w1 buf = (w2, Some err) \<Longrightarrow>
   emitAll out (pre @ Inr buf # post) w = (w2, Some err)"
proof (induction pre arbitrary: w)
  case Nil
  then show ?case by simp
next
  case (Cons a pre)
  show ?case
  proof (cases a)
    case (Inl e)
    with Cons.prems show ?thesis by simp
  next
    case (Inr b)
    obtain w' e where o: "out w b = (w', e)"
      by (cases "out w b")
    with Cons.prems Inr have e: "e = None"
      by (cases e) simp_all
    with Cons.prems Inr o have "emitAll out pre w' = (w1, None)"
      by simp
    from Cons.IH [OF this Cons.prems(2)] show ?thesis
      by (simp add: Inr o e)
  qed
qed

text \<open>
  C7 (write emission order). \<^verbatim>\<open>Write\<close> is the emission, in order, of the four bytes
  of the magic number, the marshalled header, each record of the flat sequence
  marshalled on its own, in sequence order, and the terminator bytes, stopping at the
  first failure of a serialisation or of a write. The four bytes of the magic number are
  its bytes from the least significant to the most significant. So when every
  serialisation succeeds, a buffer receives exactly the magic bytes, the header document,
  the record documents one after the other and the terminator; and for any sink, when
  the writes before some item succeed and the write of that item fails, \<^verbatim>\<open>Write\<close>
  returns that error with the sink as the failed write left it: nothing is written
  after it.
\<close>

theorem write_emission_order:
  "Prelude_Write env out p w =
     emitAll out
       (Inr (magicNumberBytes (MagicNumber env)) # marshalHeader env (Header p) #
        map (marshalMetadata env) (NamespaceMetadatas p) @ [Inr (terminatorBytes env)]) w \<and>
   magicNumberBytes (MagicNumber env) =
     [ucast (MagicNumber env), ucast (drop_bit 8 (MagicNumber env)),
      ucast (drop_bit 16 (MagicNumber env)), ucast (drop_bit 24 (MagicNumber env))] \<and>
   (\<forall>hb docs. marshalHeader env (Header p) = Inr hb \<and>
      map (marshalMetadata env) (NamespaceMetadatas p) = map Inr docs \<longrightarrow>
      Prelude_Write env bufferWrite p sink =
        (sink @ magicNumberBytes (MagicNumber env) @ hb @ concat docs @ terminatorBytes env,
         None)) \<and>
   (\<forall>pre buf post w1 w2 err.
      Inr (magicNumberBytes (MagicNumber env)) # marshalHeader env (Header p) #
        map (marshalMetadata env) (NamespaceMetadatas p) @ [Inr (terminatorBytes env)] =
        pre @ Inr buf # post \<and>
      emitAll out pre w = (w1, None) \<and> out w1 buf = (w2, Some err) \<longrightarrow>
      Prelude_Write env out p w = (w2, Some err))"
proof -
  have ok: "Prelude_Write env bufferWrite p sink =
        (sink @ magicNumberBytes (MagicNumber env) @ hb @ concat docs @ terminatorBytes env,
         None)"
    if "marshalHeader env (Header p) = Inr hb"
      and "map (marshalMetadata env) (NamespaceMetadatas p) = map Inr docs" for hb docs
  proof -
    have "Prelude_Write env bufferWrite p sink =
        emitAll bufferWrite
          (map Inr (magicNumberBytes (MagicNumber env) # hb # docs @ [terminatorBytes env])) sink"
      unfolding Write_emitAll that by simp
    then show ?thesis
      unfolding emitAll_buffer by simp
  qed
  have abort: "Prelude_Write env out p w = (w2, Some err)"
    if "Inr (magicNumberBytes (MagicNumber env)) # marshalHeader env (Header p) #
        map (marshalMetadata env) (NamespaceMetadatas p) @ [Inr (terminatorBytes env)] =
        pre @ Inr buf # post"
      and "emitAll out pre w = (w1, None)" and "out w1 buf = (w2, Some err)"
    for pre buf post w1 w2 err
    unfolding Write_emitAll that(1) using that(2,3) by (rule emitAll_abort)
  have "\<forall>hb docs. marshalHeader env (Header p) = Inr hb \<and>
      map (marshalMetadata env) (NamespaceMetadatas p) = map Inr docs \<longrightarrow>
      Prelude_Write env bufferWrite p sink =
        (sink @ magicNumberBytes (MagicNumber env) @ hb @ concat docs @ terminatorBytes env,
         None)"
    using ok by (intro allI impI) (elim conjE)
  moreover have "\<forall>pre buf post w1 w2 err.
      Inr (magicNumberBytes (MagicNumber env)) # marshalHeader env (Header p) #
        map (marshalMetadata env) (NamespaceMetadatas p) @ [Inr (terminatorBytes env)] =
        pre @ Inr buf # post \<and>
      emitAll out pre w = (w1, None) \<and> out w1 buf = (w2, Some err) \<longrightarrow>
      Prelude_Write env out p w = (w2, Some err)"
    using abort by (intro allI impI) (elim conjE)
  ultimately show ?thesis
    using Write_emitAll [of env out p w] magicNumberBytes_eq [of "MagicNumber env"]
    by (intro conjI)
qed

theorem write_emission_order_witness:
  "Prelude_Write sampleEnv bufferWrite
     (addAll (emptyPrelude\<lparr>Header := Some sampleHeader\<rparr>) [sampleC1, sampleC3]) [] =
     ([0x6d, 0xe2, 0x99, 0x81] @ bsonHeader sampleHeader @ bsonMetadata sampleC1 @
      bsonMetadata sampleC3 @ [0xff, 0xff, 0xff, 0xff], None) \<and>
   Prelude_Write sampleEnv (limitedWrite 2)
     (addAll (emptyPrelude\<lparr>Header := Some sampleHeader\<rparr>) [sampleC1, sampleC3]) [] =
     ([0x6d, 0xe2], Some (ErrOther ''short write''))"
proof -
  let ?P = "addAll (emptyPrelude\<lparr>Header := Some sampleHeader\<rparr>) [sampleC1, sampleC3]"
  have hd: "Header ?P = Some sampleHeader"
    by (simp add: addAll_Header)
  have flat: "NamespaceMetadatas ?P = [sampleC1, sampleC3]"
    by (simp add: addAll_flat emptyPrelude_def)
  have env: "marshalHeader sampleEnv (Some sampleHeader) = Inr (bsonHeader sampleHeader)"
    "marshalMetadata sampleEnv = (\<lambda>cm. Inr (bsonMetadata cm))"
    "MagicNumber sampleEnv = 0x8199e26d" "terminatorBytes sampleEnv = [0xff, 0xff, 0xff, 0xff]"
    by (simp_all add: sampleEnv_def)
  have magic: "magicNumberBytes (0x8199e26d) = [0x6d, 0xe2, 0x99, 0x81]"
    by (simp add: magicNumberBytes_eq)
  note t = write_emission_order [of sampleEnv "limitedWrite 2" ?P "[]" "[]"]
  note t3 = t [THEN conjunct2, THEN conjunct2, THEN conjunct1, rule_format,
      of "bsonHeader sampleHeader" "[bsonMetadata sampleC1, bsonMetadata sampleC3]"]
  note t4 = t [THEN conjunct2, THEN conjunct2, THEN conjunct2, rule_format,
      of "[]" "[0x6d, 0xe2, 0x99, 0x81]"
        "[Inr (bsonHeader sampleHeader), Inr (bsonMetadata sampleC1),
          Inr (bsonMetadata sampleC3), Inr [0xff, 0xff, 0xff, 0xff]]"
        "[]" "[0x6d, 0xe2]" "ErrOther ''short write''"]
  have a: "Prelude_Write sampleEnv bufferWrite ?P [] =
     ([0x6d, 0xe2, 0x99, 0x81] @ bsonHeader sampleHeader @ bsonMetadata sampleC1 @
      bsonMetadata sampleC3 @ [0xff, 0xff, 0xff, 0xff], None)"
    using t3 by (simp add: hd flat env magic)
  have b: "Prelude_Write sampleEnv (limitedWrite 2) ?P [] =
     ([0x6d, 0xe2], Some (ErrOther ''short write''))"
    using t4 by (simp add: hd flat env magic limitedWrite_def)
  from a b show ?thesis by (intro conjI)
qed

subsection \<open>What Read keeps and what it rebuilds\<close>

lemma AddMetadata_Header_update:
  "(Prelude_AddMetadata p cm)\<lparr>Header := h\<rparr> = Prelude_AddMetadata (p\<lparr>Header := h\<rparr>) cm"
  by (cases p) (simp add: Prelude_AddMetadata_def Let_def split: option.splits)

lemma readBlocks_adds:
  "readBlocks env (preludeParserConsumer env) first p inp = (p', rest, err) \<Longrightarrow>
   \<exists>new. p' = addAll (p\<lparr>Header := Header p'\<rparr>) new"
proof (induction env "preludeParserConsumer env" first p inp arbitrary: p' rest err
    rule: readBlocks.induct)
  case (1 env first s inp)
  obtain r rest0 where rd: "readBSONOrTerminator env inp = (r, rest0)"
    by (cases "readBSONOrTerminator env inp")
  have same: "\<exists>new. s = addAll (s\<lparr>Header := Header s\<rparr>) new"
    by (rule exI [of _ "[]"]) (simp add: addAll_Nil)
  show ?case
  proof (cases r)
    case (Inl e)
    with "1.prems" rd have "p' = s"
      by (subst (asm) readBlocks.simps) simp
    with same show ?thesis by simp
  next
    case (Inr ob)
    show ?thesis
    proof (cases ob)
      case None
      with "1.prems" rd Inr have "p' = s"
        by (subst (asm) readBlocks.simps) (simp add: consumer_End)
      with same show ?thesis by simp
    next
      case (Some block)
      obtain s' e where cb: "(if first then HeaderBSON (preludeParserConsumer env)
          else BodyBSON (preludeParserConsumer env)) block s = (s', e)"
        by (cases "(if first then HeaderBSON (preludeParserConsumer env)
          else BodyBSON (preludeParserConsumer env)) block s")
      have step: "\<exists>one. \<forall>h. s'\<lparr>Header := h\<rparr> = addAll (s\<lparr>Header := h\<rparr>) one"
      proof (cases first)
        case True
        with cb have "s' = s\<lparr>Header := Some (fst (unmarshalHeader env block zeroHeader))\<rparr>"
          by (simp add: consumer_HeaderBSON)
        then have "\<forall>h. s'\<lparr>Header := h\<rparr> = addAll (s\<lparr>Header := h\<rparr>) []"
          by (simp add: addAll_Nil)
        then show ?thesis ..
      next
        case False
        with cb have "s' = s \<or> s' = Prelude_AddMetadata s (fst (unmarshalMetadata env block zeroMetadata))"
          by (auto simp add: consumer_BodyBSON split: option.splits)
        then show ?thesis
        proof
          assume "s' = s"
          then have "\<forall>h. s'\<lparr>Header := h\<rparr> = addAll (s\<lparr>Header := h\<rparr>) []"
            by (simp add: addAll_Nil)
          then show ?thesis ..
        next
          assume "s' = Prelude_AddMetadata s (fst (unmarshalMetadata env block zeroMetadata))"
          then have "\<forall>h. s'\<lparr>Header := h\<rparr> =
              addAll (s\<lparr>Header := h\<rparr>) [fst (unmarshalMetadata env block zeroMetadata)]"
            by (simp add: addAll_Cons addAll_Nil AddMetadata_Header_update)
          then show ?thesis ..
        qed
      qed
      then obtain one where one: "\<And>h. s'\<lparr>Header := h\<rparr> = addAll (s\<lparr>Header := h\<rparr>) one"
        by blast
      show ?thesis
      proof (cases e)
        case (Some err')
        with "1.prems" rd Inr \<open>ob = Some block\<close> cb have "p' = s'"
          by (subst (asm) readBlocks.simps) simp
        then have "p' = addAll (s\<lparr>Header := Header p'\<rparr>) one"
          using one [of "Header s'"] by simp
        then show ?thesis ..
      next
        case None
        with "1.prems" rd Inr \<open>ob = Some block\<close> cb
        have rec: "readBlocks env (preludeParserConsumer env) False s' rest0 = (p', rest, err)"
          by (subst (asm) readBlocks.simps) simp
        have "\<exists>new. p' = addAll (s'\<lparr>Header := Header p'\<rparr>) new"
          using "1.hyps" [OF rd [symmetric] Inr \<open>ob = Some block\<close> cb [symmetric] None rec] .
        then obtain new where "p' = addAll (s'\<lparr>Header := Header p'\<rparr>) new"
          by blast
        then have "p' = addAll (s\<lparr>Header := Header p'\<rparr>) (one @ new)"
          by (simp add: one addAll_def)
        then show ?thesis ..
      qed
    qed
  qed
qed

text \<open>
  C10 (frame of \<^verbatim>\<open>Read\<close>). After a successful \<^verbatim>\<open>Read\<close> there is a list
  \<open>new\<close>, the records parsed in this call, such that: the flat sequence is the
  sequence before the call followed by \<open>new\<close>; the database list is the list before the
  call followed by the databases of \<open>new\<close> in first-seen order; and the by-database
  index is the index that \<^verbatim>\<open>AddMetadata\<close> builds from \<open>new\<close> alone on an empty
  prelude, so each group holds records of \<open>new\<close> only, and a record that was in the
  prelude before the call is reachable through the index only through an equal record
  parsed in this call. The block parser is the one modelled from the specification.
\<close>

theorem read_keeps_flat_views:
  assumes "Prelude_Read env p inp = (p', rest, None)"
  shows "\<exists>new.
           NamespaceMetadatas p' = NamespaceMetadatas p @ new \<and>
           DBS p' = DBS p @ firstSeen (map Database new) \<and>
           (\<forall>d. lookupByDB p' d = lookupByDB (addAll emptyPrelude new) d) \<and>
           (\<forall>d g. lookupByDB p' d = Some g \<longrightarrow> g = filter (\<lambda>cm. Database cm = d) new)"
proof -
  let ?p1 = "if NamespaceMetadatasByDB p \<noteq> None
             then p\<lparr>NamespaceMetadatasByDB := Some Map.empty\<rparr> else p"
  from assms have "readBlocks env (preludeParserConsumer env) True ?p1 (drop 4 inp) =
      (p', rest, None)"
    by (simp add: Prelude_Read_def Parser_ReadBlock_def Let_def split: if_splits)
  then obtain new where new: "p' = addAll (?p1\<lparr>Header := Header p'\<rparr>) new"
    using readBlocks_adds by blast
  let ?q = "?p1\<lparr>Header := Header p'\<rparr>"
  have q: "lookupByDB ?q d = None" "NamespaceMetadatas ?q = NamespaceMetadatas p"
    "DBS ?q = DBS p" for d
    by (simp_all add: lookupByDB_def)
  have flat: "NamespaceMetadatas p' = NamespaceMetadatas p @ new"
    by (subst new) (simp only: addAll_flat q)
  have "DBS p' = DBS ?q @ firstSeen (filter (\<lambda>d. lookupByDB ?q d = None) (map Database new))"
    by (subst new) (rule addAll_DBS)
  then have dbs: "DBS p' = DBS p @ firstSeen (map Database new)"
    by (simp only: q) simp
  have "lookupByDB p' d =
     (case lookupByDB ?q d of
        None \<Rightarrow> (if d \<in> Database ` set new
                 then Some (filter (\<lambda>cm. Database cm = d) new) else None)
      | Some g \<Rightarrow> Some (g @ filter (\<lambda>cm. Database cm = d) new))" for d
    by (subst new) (rule addAll_lookup)
  then have lk: "lookupByDB p' d =
      (if d \<in> Database ` set new then Some (filter (\<lambda>cm. Database cm = d) new) else None)" for d
    by (simp only: q) simp
  have fresh: "\<forall>d. lookupByDB p' d = lookupByDB (addAll emptyPrelude new) d"
    by (simp add: lk addAll_lookup emptyPrelude_lookup)
  have only: "\<forall>d g. lookupByDB p' d = Some g \<longrightarrow> g = filter (\<lambda>cm. Database cm = d) new"
    by (simp add: lk)
  from flat dbs fresh only show ?thesis
    by blast
qed

theorem read_keeps_flat_views_witness:
  "NamespaceMetadatas (fst (Prelude_Read sampleEnv (addAll emptyPrelude [sampleC1])
      (magicNumberBytes (MagicNumber sampleEnv) @ bsonHeader sampleHeader @
       bsonMetadata sampleC3 @ terminatorBytes sampleEnv))) = [sampleC1, sampleC3] \<and>
   DBS (fst (Prelude_Read sampleEnv (addAll emptyPrelude [sampleC1])
      (magicNumberBytes (MagicNumber sampleEnv) @ bsonHeader sampleHeader @
       bsonMetadata sampleC3 @ terminatorBytes sampleEnv))) = [''db1'', ''db2''] \<and>
   lookupByDB (fst (Prelude_Read sampleEnv (addAll emptyPrelude [sampleC1])
      (magicNumberBytes (MagicNumber sampleEnv) @ bsonHeader sampleHeader @
       bsonMetadata sampleC3 @ terminatorBytes sampleEnv))) ''db1'' = None \<and>
   lookupByDB (fst (Prelude_Read sampleEnv (addAll emptyPrelude [sampleC1])
      (magicNumberBytes (MagicNumber sampleEnv) @ bsonHeader sampleHeader @
       bsonMetadata sampleC3 @ terminatorBytes sampleEnv))) ''db2'' = Some [sampleC3]"
proof -
  let ?old = "addAll emptyPrelude [sampleC1]"
  let ?inp = "magicNumberBytes (MagicNumber sampleEnv) @ bsonHeader sampleHeader @
       bsonMetadata sampleC3 @ terminatorBytes sampleEnv"
  let ?p' = "addAll ((?old\<lparr>NamespaceMetadatasByDB := Some Map.empty\<rparr>)
      \<lparr>Header := Some sampleHeader\<rparr>) [sampleC3]"
  have made: "NamespaceMetadatasByDB ?old \<noteq> None"
    by (simp add: addAll_Cons addAll_Nil AddMetadata_made)
  have env: "marshalHeader sampleEnv (Some sampleHeader) = Inr (bsonHeader sampleHeader)"
    "marshalMetadata sampleEnv sampleC3 = Inr (bsonMetadata sampleC3)"
    by (simp_all add: sampleEnv_def)
  have rd: "Prelude_Read sampleEnv ?old ?inp = (?p', [], None)"
    using Read_written [of sampleEnv sampleHeader "[sampleC3]" ?old "[]"]
      sampleHeader_roundTrips sampleC3_roundTrips made
    by (simp add: env marshalledBytes_def)
  have e: "NamespaceMetadatas emptyPrelude = []" "DBS emptyPrelude = []"
    by (simp_all add: emptyPrelude_def)
  have old: "NamespaceMetadatas ?old = [sampleC1]" "DBS ?old = [''db1'']"
    by (simp_all add: addAll_flat addAll_DBS emptyPrelude_lookup e sampleC1_def)
  have flat: "NamespaceMetadatas ?p' = [sampleC1, sampleC3]"
    by (simp add: addAll_flat e)
  from read_keeps_flat_views [OF rd] obtain new where
    n: "NamespaceMetadatas ?p' = NamespaceMetadatas ?old @ new"
      "DBS ?p' = DBS ?old @ firstSeen (map Database new)"
      "\<forall>d g. lookupByDB ?p' d = Some g \<longrightarrow> g = filter (\<lambda>cm. Database cm = d) new"
      "\<forall>d. lookupByDB ?p' d = lookupByDB (addAll emptyPrelude new) d"
    by blast
  from n(1) have new: "new = [sampleC3]"
    by (simp add: flat old)
  have dbs: "DBS ?p' = [''db1'', ''db2'']"
    using n(2) by (simp add: new old sampleC3_def)
  have l1: "lookupByDB ?p' ''db1'' = None"
    using n(4) by (simp add: new addAll_lookup emptyPrelude_lookup sampleC3_def)
  have l2: "lookupByDB ?p' ''db2'' = Some [sampleC3]"
    using n(4) by (simp add: new addAll_lookup emptyPrelude_lookup sampleC3_def)
  from flat dbs l1 l2 show ?thesis
    by (simp only: rd fst_conv) 
qed

end
